theory Spec2Isabelle
  imports Main "HOL-Library.Sublist" "HOL-Library.AList" "HOL-Library.List_Lexorder"
    "HOL-Library.Char_ord"
begin

section \<open>JavaScript strings and values\<close>

text \<open>
  A JavaScript string is a \<^typ>\<open>string\<close>, one \<^typ>\<open>char\<close> per code unit; the
  texts the script handles (kubectl tables, typed answers) are taken as 8-bit code
  units. A value that may be \<^verbatim>\<open>undefined\<close> or \<^verbatim>\<open>null\<close> is a
  \<^typ>\<open>string option\<close>, \<open>None\<close> standing for both.
\<close>

definition nl :: char where
  "nl = CHR 0x0A"

text \<open>The characters matched by \<^verbatim>\<open>\s\<close> and removed by \<^verbatim>\<open>trim()\<close>:
  tab, line feed, vertical tab, form feed, carriage return, space, no-break space.\<close>

definition is_space :: "char \<Rightarrow> bool" where
  "is_space c \<longleftrightarrow> c \<in> set [CHR 0x09, CHR 0x0A, CHR 0x0B, CHR 0x0C, CHR 0x0D, CHR 0x20, CHR 0xA0]"

text \<open>\<^verbatim>\<open>s.trim()\<close>\<close>

definition trim :: "string \<Rightarrow> string" where
  "trim s = rev (dropWhile is_space (rev (dropWhile is_space s)))"

text \<open>\<^verbatim>\<open>s.split(c)\<close> for a one-character separator: never the empty array.\<close>

fun split_on :: "char \<Rightarrow> string \<Rightarrow> string list" where
  "split_on c [] = [[]]"
| "split_on c (x # xs) =
     (if x = c then [] # split_on c xs
      else (case split_on c xs of [] \<Rightarrow> [[x]] | p # ps \<Rightarrow> (x # p) # ps))"

text \<open>\<^verbatim>\<open>s.split(/\s+/)\<close>: the pieces between maximal runs of white space; a string that
  starts (ends) with white space has an empty first (last) piece, and the empty string
  gives one empty piece.\<close>

function split_ws :: "string \<Rightarrow> string list" where
  "split_ws s =
     (let rest = dropWhile (\<lambda>c. \<not> is_space c) s
      in if rest = [] then [s]
         else takeWhile (\<lambda>c. \<not> is_space c) s # split_ws (dropWhile is_space rest))"
  by pat_completeness auto
termination
proof (relation "measure length")
  fix s rest
  assume r: "rest = dropWhile (\<lambda>c. \<not> is_space c) s" and ne: "rest \<noteq> []"
  from ne have "length (dropWhile is_space rest) < length rest"
    by (cases rest) (use r ne hd_dropWhile [of "\<lambda>c. \<not> is_space c" s] in
        \<open>auto simp: less_Suc_eq_le length_dropWhile_le\<close>)
  also have "length rest \<le> length s"
    unfolding r by (rule length_dropWhile_le)
  finally show "(dropWhile is_space rest, s) \<in> measure length"
    by simp
qed simp

declare split_ws.simps [simp del]

text \<open>\<^verbatim>\<open>parts.join(sep)\<close>\<close>

fun join :: "string \<Rightarrow> string list \<Rightarrow> string" where
  "join sep [] = []"
| "join sep [p] = p"
| "join sep (p # q # ps) = p @ sep @ join sep (q # ps)"

text \<open>\<^verbatim>\<open>xs.indexOf(x)\<close>: the first position of \<open>x\<close>, or \<open>-1\<close>.\<close>

fun indexOf :: "'a list \<Rightarrow> 'a \<Rightarrow> int" where
  "indexOf [] x = -1"
| "indexOf (y # ys) x =
     (if y = x then 0 else (let i = indexOf ys x in if i < 0 then -1 else i + 1))"

text \<open>\<^verbatim>\<open>xs[i]\<close>: \<^verbatim>\<open>undefined\<close> outside the array, also at \<open>-1\<close>.\<close>

definition at :: "'a list \<Rightarrow> int \<Rightarrow> 'a option" where
  "at xs i = (if 0 \<le> i \<and> i < int (length xs) then Some (xs ! nat i) else None)"

text \<open>A value inside a template literal: \<^verbatim>\<open>`${v}`\<close>.\<close>

definition tostr :: "string option \<Rightarrow> string" where
  "tostr v = (case v of None \<Rightarrow> ''undefined'' | Some s \<Rightarrow> s)"

text \<open>Truthiness of a string-or-undefined value.\<close>

definition truthy :: "string option \<Rightarrow> bool" where
  "truthy v = (case v of None \<Rightarrow> False | Some s \<Rightarrow> s \<noteq> [])"

section \<open>The service map\<close>

text \<open>
  \<^verbatim>\<open>servicesMap\<close> is a \<^verbatim>\<open>Map\<close> from service name to an object keyed by environment
  (\<^verbatim>\<open>dev\<close>, \<^verbatim>\<open>qa\<close>, \<^verbatim>\<open>stg\<close>) holding \<^verbatim>\<open>{id, namespace}\<close>. Both are association
  lists in insertion order: \<^const>\<open>AList.update\<close> overwrites a key in place and appends
  a new one, as \<^verbatim>\<open>Map.set\<close> and a property assignment do.
\<close>

record details =
  details_id :: string
  details_namespace :: "string option"

type_synonym service_obj = "(string \<times> details) list"
type_synonym services_map = "(string \<times> service_obj) list"

text \<open>
  What can stop the parser. \<open>TypeError\<close>: a method is called on \<^verbatim>\<open>undefined\<close>
  (a row without a NAME column). \<open>SyntaxError\<close>, with its message: the namespace is
  spliced into the source of a regular expression, and \<^verbatim>\<open>new RegExp\<close> throws when
  that source is not a pattern.
\<close>

datatype failure = TypeError | SyntaxError string

text \<open>
  The regular expression engine of the runtime is an input, like the answers typed and the
  output of the commands: \<open>engine source s\<close> is what
  \<^verbatim>\<open>s.replace(new RegExp(source, "g"), "")\<close> gives, the new string, or the message of
  the error the constructor throws. The parser asks it only about a source in which some
  character has a meaning of its own; what a source of plain characters matches is
  written out below. A run evaluated further down whose namespaces are of plain characters
  never asks its engine, which is given as one that refuses every source; the run with
  namespace \<^verbatim>\<open>a.b\<close> is given the engine's answer on the one source and name it asks.
\<close>

type_synonym regexp_engine = "string \<Rightarrow> string \<Rightarrow> string + string"

section \<open>The parser\<close>

text \<open>\<^verbatim>\<open>nameColumn.replace(/^(dev-|qa-|stg-)/, "")\<close>\<close>

definition strip_env :: "string \<Rightarrow> string" where
  "strip_env s =
     (if prefix ''dev-'' s then drop 4 s
      else if prefix ''qa-'' s then drop 3 s
      else if prefix ''stg-'' s then drop 4 s
      else s)"

text \<open>The syntax characters of a regular expression; a namespace without them is a
  pattern that matches exactly itself.\<close>

definition regex_literal :: "string \<Rightarrow> bool" where
  "regex_literal ns \<longleftrightarrow>
     (\<forall>c \<in> set ns. c \<notin> set [CHR 0x5C, CHR ''^'', CHR ''$'', CHR ''.'', CHR ''*'', CHR ''+'',
         CHR ''?'', CHR ''('', CHR '')'', CHR ''['', CHR '']'', CHR ''{'', CHR ''}'', CHR ''|''])"

text \<open>
  \<^verbatim>\<open>modifiedName.replace(new RegExp(`^${namespaceColumn}-`, "g"), "")\<close>.
  For a namespace of plain characters the pattern is \<^verbatim>\<open>^\<close>, then that text, then
  \<^verbatim>\<open>-\<close>: without the \<^verbatim>\<open>m\<close> flag it can match at position 0 only, and the
  \<^verbatim>\<open>g\<close> flag finds no second match. Any other namespace is a pattern of its own
  (\<^verbatim>\<open>a.b\<close> matches \<^verbatim>\<open>axb\<close>), and the engine says what is replaced.
\<close>

definition strip_namespace :: "regexp_engine \<Rightarrow> string \<Rightarrow> string \<Rightarrow> failure + string" where
  "strip_namespace engine namespaceColumn name =
     (if regex_literal namespaceColumn
      then (if prefix (namespaceColumn @ ''-'') name
            then Inr (drop (length namespaceColumn + 1) name)
            else Inr name)
      else (case engine (CHR ''^'' # namespaceColumn @ ''-'') name of
              Inl message \<Rightarrow> Inl (SyntaxError message)
            | Inr replaced \<Rightarrow> Inr replaced))"

text \<open>Lines 295 to 303: the name after both replacements.\<close>

definition modifiedName :: "regexp_engine \<Rightarrow> string option \<Rightarrow> string \<Rightarrow> failure + string" where
  "modifiedName engine namespaceColumn nameColumn =
     (if truthy namespaceColumn
      then strip_namespace engine (tostr namespaceColumn) (strip_env nameColumn)
      else Inr (strip_env nameColumn))"

text \<open>
  The body of the loop up to the write into the map (lines 279 to 309 of version 0.0.2,
  74 to 104 of version 0.0.1): \<open>Inr None\<close> is a row that is passed over, \<open>Inr (Some
  (serviceName, envPrefix, d))\<close> a row that is stored.
\<close>

definition parse_row ::
  "regexp_engine \<Rightarrow> string option \<Rightarrow> int \<Rightarrow> int \<Rightarrow> string \<Rightarrow> failure + (string \<times> string \<times> details) option" where
  "parse_row engine namespace namespaceIndex nameIndex line =
     (let columns = split_ws line;
          namespaceColumn = (case namespace of Some n \<Rightarrow> Some n | None \<Rightarrow> at columns namespaceIndex)
      in case at columns nameIndex of
           None \<Rightarrow> Inl TypeError
         | Some nameColumn \<Rightarrow>
             if \<not> (prefix ''dev-'' nameColumn \<or> prefix ''qa-'' nameColumn \<or> prefix ''stg-'' nameColumn)
             then Inr None
             else
               let envPrefix = (if prefix ''dev-'' nameColumn then ''dev''
                                else if prefix ''qa-'' nameColumn then ''qa'' else ''stg'')
               in (case modifiedName engine namespaceColumn nameColumn of
                     Inl e \<Rightarrow> Inl e
                   | Inr name \<Rightarrow>
                       (let parts = split_on CHR ''-'' name
                        in if length parts > 2
                           then Inr (Some (join ''-'' (take (length parts - 2) parts), envPrefix,
                                   \<lparr>details_id = join ''-'' (drop (length parts - 2) parts),
                                    details_namespace = namespaceColumn\<rparr>))
                           else Inr None)))"

text \<open>Lines 310 to 316: create the service's object when it is new, then set its
  environment entry.\<close>

definition store :: "string \<Rightarrow> string \<Rightarrow> details \<Rightarrow> services_map \<Rightarrow> services_map" where
  "store serviceName envPrefix d servicesMap =
     (let m = (if map_of servicesMap serviceName = None
               then AList.update serviceName [] servicesMap else servicesMap);
          obj = (case map_of m serviceName of None \<Rightarrow> [] | Some ob \<Rightarrow> ob)
      in AList.update serviceName (AList.update envPrefix d obj) m)"

text \<open>The \<^verbatim>\<open>for\<close> loop over the rows after the header.\<close>

fun rows_loop :: "regexp_engine \<Rightarrow> string option \<Rightarrow> int \<Rightarrow> int \<Rightarrow> string list \<Rightarrow> services_map \<Rightarrow> failure + services_map" where
  "rows_loop engine namespace namespaceIndex nameIndex [] servicesMap = Inr servicesMap"
| "rows_loop engine namespace namespaceIndex nameIndex (line # rest) servicesMap =
     (case parse_row engine namespace namespaceIndex nameIndex line of
        Inl e \<Rightarrow> Inl e
      | Inr None \<Rightarrow> rows_loop engine namespace namespaceIndex nameIndex rest servicesMap
      | Inr (Some (serviceName, envPrefix, d)) \<Rightarrow>
          rows_loop engine namespace namespaceIndex nameIndex rest (store serviceName envPrefix d servicesMap))"

text \<open>\<^verbatim>\<open>podsData.trim().split("\n")\<close>\<close>

definition lines_of :: "string \<Rightarrow> string list" where
  "lines_of podsData = split_on nl (trim podsData)"

definition getServicesMap :: "regexp_engine \<Rightarrow> string \<Rightarrow> string option \<Rightarrow> failure + services_map" where
  "getServicesMap engine podsData namespace =
     (case lines_of podsData of
        [] \<Rightarrow> Inl TypeError
      | header # rows \<Rightarrow>
          let headers = split_ws header;
              namespaceIndex = indexOf headers ''NAMESPACE'';
              nameIndex = indexOf headers ''NAME''
          in rows_loop engine namespace namespaceIndex nameIndex rows [])"

text \<open>\<^verbatim>\<open>servicesMap.get(serviceName)[environment]\<close>, \<open>None\<close> when either is missing.\<close>

definition entry :: "services_map \<Rightarrow> string \<Rightarrow> string \<Rightarrow> details option" where
  "entry servicesMap serviceName environment =
     (case map_of servicesMap serviceName of None \<Rightarrow> None | Some obj \<Rightarrow> map_of obj environment)"

section \<open>The outside world\<close>

text \<open>
  What the callback of \<^verbatim>\<open>exec\<close> receives: the message of \<^verbatim>\<open>error\<close> when it is
  not \<^verbatim>\<open>null\<close> (Node sets it when the command exits non-zero or cannot run), and the
  two captured streams.
\<close>

record exec_result =
  exec_error :: "string option"
  exec_stdout :: string
  exec_stderr :: string

text \<open>
  A run is the list of the calls the script makes, in order. The user's typed lines and
  the results of the commands are inputs: \<open>answers\<close> holds the lines still to be
  read, \<open>sh\<close> maps a command line to what \<^verbatim>\<open>exec\<close> reports for it. A question with
  no line left to read ends the list: the script waits.
  \<open>Uncaught\<close> is an exception that leaves the callback of version 0.0.1, which has no
  handler.
\<close>

datatype event =
    Log string
  | ErrorLog string
  | SpinnerStart string
  | SpinnerStop
  | Exec string
  | Question string
  | Spawn string "string list"
  | Sleep nat
  | Close
  | Uncaught failure

definition esc :: char where
  "esc = CHR 0x1B"

definition c_reset :: string where "c_reset = esc # ''[0m''"
definition c_red :: string where "c_red = esc # ''[31m''"
definition c_green :: string where "c_green = esc # ''[32m''"
definition c_yellow :: string where "c_yellow = esc # ''[33m''"
definition c_magenta :: string where "c_magenta = esc # ''[35m''"
definition c_cyan :: string where "c_cyan = esc # ''[36m''"

definition colorText :: "string \<Rightarrow> string \<Rightarrow> string" where
  "colorText colorCode text = colorCode @ text @ c_reset"

definition print :: "string \<Rightarrow> string \<Rightarrow> event" where
  "print colorCode text = Log (colorText colorCode text)"

text \<open>\<^verbatim>\<open>execPromise\<close>: \<open>Inl\<close> is the rejection, with the message of the error it carries.\<close>

definition execPromise :: "exec_result \<Rightarrow> string + string" where
  "execPromise r =
     (case exec_error r of
        Some message \<Rightarrow> Inl message
      | None \<Rightarrow> if exec_stderr r \<noteq> [] then Inl (exec_stderr r) else Inr (exec_stdout r))"

text \<open>\<^verbatim>\<open>getArgValue\<close>, on \<^verbatim>\<open>process.argv.slice(2)\<close>.\<close>

fun getArgValue :: "string \<Rightarrow> string list \<Rightarrow> string option" where
  "getArgValue flag [] = None"
| "getArgValue flag [a] = None"
| "getArgValue flag (a # b # rest) =
     (if a = flag \<and> b \<noteq> [] then Some b else getArgValue flag (b # rest))"

text \<open>
  \<^verbatim>\<open>parseInt(s)\<close>: leading white space, a sign, \<^verbatim>\<open>0x\<close> for base 16, then the longest
  run of digits; \<open>None\<close> is \<^verbatim>\<open>NaN\<close>. The value is an exact integer where JavaScript
  has a double; the script only compares it with 0, 1, 2, 3 and the length of a list,
  and rounding does not change those comparisons.
\<close>

definition digit_value :: "char \<Rightarrow> nat option" where
  "digit_value c =
     (let i = indexOf ''0123456789abcdef'' c; j = indexOf ''0123456789ABCDEF'' c
      in if 0 \<le> i then Some (nat i) else if 0 \<le> j then Some (nat j) else None)"

definition is_digit :: "nat \<Rightarrow> char \<Rightarrow> bool" where
  "is_digit radix c = (case digit_value c of None \<Rightarrow> False | Some v \<Rightarrow> v < radix)"

definition digits_value :: "nat \<Rightarrow> string \<Rightarrow> int" where
  "digits_value radix ds =
     foldl (\<lambda>acc c. acc * int radix + (case digit_value c of None \<Rightarrow> 0 | Some v \<Rightarrow> int v)) 0 ds"

definition parseInt :: "string \<Rightarrow> int option" where
  "parseInt str =
     (let s = dropWhile is_space str;
          sign = (if prefix ''-'' s then - 1 else 1);
          s1 = (if prefix ''-'' s \<or> prefix ''+'' s then drop 1 s else s);
          radix = (if prefix ''0x'' s1 \<or> prefix ''0X'' s1 then 16 else 10);
          s2 = (if prefix ''0x'' s1 \<or> prefix ''0X'' s1 then drop 2 s1 else s1);
          z = takeWhile (is_digit radix) s2
      in if z = [] then None else Some (sign * digits_value radix z))"

text \<open>A number inside a template literal.\<close>

function dec :: "nat \<Rightarrow> string" where
  "dec n = (if n < 10 then [''0123456789'' ! n] else dec (n div 10) @ [''0123456789'' ! (n mod 10)])"
  by pat_completeness auto
termination
  by (relation "measure id") auto

declare dec.simps [simp del]

text \<open>\<^verbatim>\<open>s.toLowerCase()\<close>, on the letters A to Z.\<close>

definition toLowerCase :: "string \<Rightarrow> string" where
  "toLowerCase s =
     map (\<lambda>c. case map_of (zip ''ABCDEFGHIJKLMNOPQRSTUVWXYZ'' ''abcdefghijklmnopqrstuvwxyz'') c of
                None \<Rightarrow> c | Some l \<Rightarrow> l) s"

section \<open>Version 0.0.2\<close>

text \<open>
  \<^verbatim>\<open>main\<close> from line 57 on (the banner before it prints constants). The animation of
  the spinner runs on a timer and is not part of a run; the calls that start and stop it
  are. \<^verbatim>\<open>await prompt(q)\<close> asks, reads one line and trims it.
\<close>

definition prompt :: "string \<Rightarrow> string list \<Rightarrow> (string \<Rightarrow> string list \<Rightarrow> event list) \<Rightarrow> event list" where
  "prompt question answers continue =
     Question question # (case answers of [] \<Rightarrow> [] | answer # rest \<Rightarrow> continue (trim answer) rest)"

text \<open>The \<^verbatim>\<open>catch\<close> block of \<^verbatim>\<open>main\<close>.\<close>

definition catch_block :: "string \<Rightarrow> event list" where
  "catch_block message = [SpinnerStop, ErrorLog message, Close]"

text \<open>The message V8 gives to a property read on \<^verbatim>\<open>undefined\<close>.\<close>

definition typeError_message :: "string \<Rightarrow> string" where
  "typeError_message property =
     ''Cannot read properties of undefined (reading '' @ [CHR 0x27] @ property @ [CHR 0x27] @ '')''"

definition portForwardCommand ::
  "string option \<Rightarrow> string \<Rightarrow> string \<Rightarrow> string \<Rightarrow> string \<Rightarrow> string \<Rightarrow> string" where
  "portForwardCommand namespace environment selectedService serviceId localPort servicePort =
     ''kubectl port-forward --namespace '' @ tostr namespace @ '' '' @ environment @ ''-'' @
     tostr namespace @ ''-'' @ selectedService @ ''-'' @ serviceId @ '' '' @ localPort @ '':'' @
     servicePort"

definition logsCommand :: "string option \<Rightarrow> string \<Rightarrow> string \<Rightarrow> string \<Rightarrow> string" where
  "logsCommand namespace environment selectedService serviceId =
     ''kubectl logs --namespace '' @ tostr namespace @ '' '' @ environment @ ''-'' @
     tostr namespace @ ''-'' @ selectedService @ ''-'' @ serviceId @ '' -f''"

definition getServicePortCommand :: "string option \<Rightarrow> string \<Rightarrow> string \<Rightarrow> string" where
  "getServicePortCommand namespace environment selectedService =
     ''kubectl get service --namespace '' @ tostr namespace @ '' '' @ environment @ ''-'' @
     tostr namespace @ ''-'' @ selectedService @ '' -o jsonpath={.spec.ports[*].port}''"

text \<open>\<^verbatim>\<open>handleLogsProcess\<close>, run once, by the first output of the port-forward process.\<close>

definition handleLogsProcess :: "string \<Rightarrow> string list \<Rightarrow> event list" where
  "handleLogsProcess logsCmd answers =
     Sleep 500 #
     prompt (colorText c_yellow (nl # ''Would you like to see the logs in real time? (Y/n): ''))
       answers
       (\<lambda>logsAnswer rest.
          let logsChoice = (if toLowerCase logsAnswer \<noteq> [] then toLowerCase logsAnswer else ''y'')
          in (if logsChoice = ''y'' \<or> logsChoice = ''yes''
              then [print c_green (nl # ''> '' @ logsCmd),
                    SpinnerStart ''Fetching logs for the pod'',
                    Spawn ''kubectl'' (tl (split_on CHR '' '' logsCmd))]
              else [print c_cyan ''Skipping logs.''])
             @ [Close])"

text \<open>
  Lines 142 to 192. \<open>pf_data\<close> is the first chunk the port-forward process writes to
  its standard output, if it writes any; later chunks and the other streams only print.
\<close>

definition forward ::
  "string option \<Rightarrow> string \<Rightarrow> string \<Rightarrow> details \<Rightarrow> (string \<Rightarrow> exec_result) \<Rightarrow> string list
     \<Rightarrow> string option \<Rightarrow> event list" where
  "forward namespace0 selectedService environment serviceDetails sh answers pf_data =
     (let serviceId = details_id serviceDetails;
          namespace = (case namespace0 of Some n \<Rightarrow> Some n | None \<Rightarrow> details_namespace serviceDetails)
      in prompt (colorText c_yellow (nl # ''Enter the local port to run the service (default: 3000): ''))
           answers
           (\<lambda>localPortAnswer answers.
              let localPort = (if localPortAnswer \<noteq> [] then localPortAnswer else ''3000'');
                  portCmd = getServicePortCommand namespace environment selectedService
              in [print c_green (nl # ''> '' @ portCmd),
                  SpinnerStart ''Detecting port on the Kubernetes service'',
                  Exec portCmd] @
                 (case execPromise (sh portCmd) of
                    Inl message \<Rightarrow> catch_block message
                  | Inr servicePortDetected \<Rightarrow>
                      [SpinnerStop, print c_cyan (''Port detected: '' @ servicePortDetected @ [nl])] @
                      prompt (colorText c_yellow
                          (''Enter the destination port on the Kubernetes service. Try using port 3000 if the detected port fails (default: ''
                           @ servicePortDetected @ ''): ''))
                        answers
                        (\<lambda>servicePortAnswer answers.
                           let servicePort = (if servicePortAnswer \<noteq> [] then servicePortAnswer
                                              else servicePortDetected);
                               forwardCmd = portForwardCommand namespace environment selectedService
                                              serviceId localPort servicePort;
                               logsCmd = logsCommand namespace environment selectedService serviceId
                           in [print c_green (nl # ''> '' @ forwardCmd),
                               SpinnerStart ''Initializing port forwarding'',
                               Spawn ''kubectl'' (tl (split_on CHR '' '' forwardCmd))] @
                              (case pf_data of
                                 None \<Rightarrow> []
                               | Some data \<Rightarrow>
                                   [SpinnerStop, print c_green (nl # data),
                                    print c_magenta (''Service available at: http://localhost:'' @ localPort)]
                                   @ handleLogsProcess logsCmd answers)))))"

text \<open>Lines 115 to 130: \<^verbatim>\<open>parseInt(envAnswer) || 1\<close>, then the chain of comparisons;
  \<open>None\<close> is its last branch.\<close>

definition environment_of :: "string \<Rightarrow> string option" where
  "environment_of envAnswer =
     (let envChoice = (case parseInt envAnswer of None \<Rightarrow> 1 | Some n \<Rightarrow> if n = 0 then 1 else n)
      in if envChoice = 1 then Some ''dev''
         else if envChoice = 2 then Some ''qa''
         else if envChoice = 3 then Some ''stg''
         else None)"

definition invalid_environment :: string where
  \<open>invalid_environment =
     ''Invalid selection. Please run the script again and choose either '1', '2', or '3'.''\<close>

definition missing_environment :: "string \<Rightarrow> string \<Rightarrow> string" where
  \<open>missing_environment environment selectedService =
     ''The selected environment "'' @ environment @ ''" does not exist for the service "'' @
     selectedService @ ''". Please run the script again and choose a valid environment.''\<close>

text \<open>Lines 104 to 107.\<close>

definition environments :: "event list" where
  "environments =
     [print c_magenta (nl # ''Environments:''), print c_green ''[1] dev'', print c_green ''[2] qa'',
      print c_green ''[3] stg'']"

text \<open>Lines 109 to 140.\<close>

definition choose_environment ::
  "string option \<Rightarrow> services_map \<Rightarrow> string \<Rightarrow> (string \<Rightarrow> exec_result) \<Rightarrow> string list
     \<Rightarrow> string option \<Rightarrow> event list" where
  "choose_environment namespace servicesMap selectedService sh answers pf_data =
     environments @
     prompt (colorText c_yellow ''Select an environment by typing a number (default: 1): '')
       answers
       (\<lambda>envAnswer answers.
          case environment_of envAnswer of
            None \<Rightarrow> [ErrorLog invalid_environment, Close]
          | Some environment \<Rightarrow>
              (case map_of servicesMap selectedService of
                 None \<Rightarrow> catch_block (typeError_message environment)
               | Some obj \<Rightarrow>
                   (case map_of obj environment of
                      None \<Rightarrow> [ErrorLog (missing_environment environment selectedService), Close]
                    | Some serviceDetails \<Rightarrow>
                        forward namespace selectedService environment serviceDetails sh answers
                          pf_data)))"

definition invalid_service :: string where
  "invalid_service = ''Invalid selection. Please run the script again and choose a valid number.''"

text \<open>Lines 79 to 82.\<close>

definition listing :: "string list \<Rightarrow> event list" where
  "listing servicesList =
     print c_magenta (nl # ''Services found:'') #
     map (\<lambda>(index, service). print c_green (''['' @ dec (index + 1) @ ''] '' @ service))
       (enumerate 0 servicesList)"

text \<open>Lines 71 to 77 and 84 to 102.\<close>

definition choose_service ::
  "string option \<Rightarrow> services_map \<Rightarrow> (string \<Rightarrow> exec_result) \<Rightarrow> string list \<Rightarrow> string option
     \<Rightarrow> event list" where
  "choose_service namespace servicesMap sh answers pf_data =
     (let servicesList = sort (map fst servicesMap)
      in if length servicesList = 0 then [print c_magenta ''No services found.'', Close]
         else
           listing servicesList @
           prompt (colorText c_yellow ''Select a service by typing a number: '') answers
             (\<lambda>serviceAnswer answers.
                case parseInt serviceAnswer of
                  None \<Rightarrow> [ErrorLog invalid_service, Close]
                | Some n \<Rightarrow>
                    (let selectedIndex = n - 1
                     in if selectedIndex < 0 \<or> selectedIndex \<ge> int (length servicesList)
                        then [ErrorLog invalid_service, Close]
                        else
                          (let selectedService = servicesList ! nat selectedIndex
                           in print c_cyan (''You selected: '' @ selectedService) #
                              choose_environment namespace servicesMap selectedService sh answers
                                pf_data))))"

definition getPodsCommand :: "string option \<Rightarrow> string" where
  "getPodsCommand namespace =
     (if truthy namespace then ''kubectl get pods --namespace '' @ tostr namespace
      else ''kubectl get pods --all-namespaces'')"

definition main :: "regexp_engine \<Rightarrow> string list \<Rightarrow> (string \<Rightarrow> exec_result) \<Rightarrow> string list \<Rightarrow> string option \<Rightarrow> event list" where
  "main engine args sh answers pf_data =
     (let namespace = getArgValue ''--namespace'' args;
          podsCmd = getPodsCommand namespace
      in [print c_green (nl # ''> '' @ podsCmd), SpinnerStart ''Loading services'', Exec podsCmd] @
         (case execPromise (sh podsCmd) of
            Inl message \<Rightarrow> catch_block message
          | Inr podsData \<Rightarrow>
              SpinnerStop #
              (case getServicesMap engine podsData namespace of
                 Inl TypeError \<Rightarrow> catch_block (typeError_message ''startsWith'')
               | Inl (SyntaxError message) \<Rightarrow> catch_block message
               | Inr servicesMap \<Rightarrow> choose_service namespace servicesMap sh answers pf_data)))"

section \<open>Version 0.0.1\<close>

text \<open>
  The script from its call of \<^verbatim>\<open>exec\<close> on. Its parsing loop (lines 65 to 113) is the
  text of \<^verbatim>\<open>getServicesMap\<close> without the namespace argument, so the same definition
  stands for it. \<^verbatim>\<open>rl.question\<close> hands the line over as typed.
\<close>

definition question :: "string \<Rightarrow> string list \<Rightarrow> (string \<Rightarrow> string list \<Rightarrow> event list) \<Rightarrow> event list" where
  "question text answers callback =
     Question text # (case answers of [] \<Rightarrow> [] | answer # rest \<Rightarrow> callback answer rest)"

definition environment_v1 :: "string \<Rightarrow> string option" where
  "environment_v1 envChoice =
     (if envChoice = ''1'' then Some ''dev''
      else if envChoice = ''2'' then Some ''qa''
      else if envChoice = ''3'' then Some ''stg''
      else None)"

definition invalid_environment_v1 :: string where
  \<open>invalid_environment_v1 =
     ''Invalid selection. Please run the script again and choose either "1", "2", or "3".''\<close>

text \<open>Lines 179 to 231. An \<^verbatim>\<open>undefined\<close> namespace reaches the process as the text it
  has in the template literals.\<close>

definition forward_v1 :: "string \<Rightarrow> string \<Rightarrow> details \<Rightarrow> string list \<Rightarrow> event list" where
  "forward_v1 selectedService environment serviceDetails answers =
     (let serviceId = details_id serviceDetails;
          namespace = details_namespace serviceDetails
      in question (colorText c_yellow ''Enter the local port to run the service (default is 3000): '')
           answers
           (\<lambda>portInput answers.
              let localPort = (if trim portInput \<noteq> [] then trim portInput else ''3000'');
                  forwardCmd = portForwardCommand namespace environment selectedService serviceId
                                 localPort ''3000''
              in [Log (colorText c_cyan ''Generated command:''),
                  Log (colorText c_green forwardCmd),
                  Log (colorText c_green ''Running the port-forward command, please wait...''),
                  Spawn ''kubectl''
                    [''port-forward'', ''--namespace'', tostr namespace,
                     environment @ ''-'' @ tostr namespace @ ''-'' @ selectedService @ ''-'' @ serviceId,
                     localPort @ '':3000''],
                  Close]))"

text \<open>Lines 144 to 147.\<close>

definition environments_v1 :: "event list" where
  "environments_v1 =
     [Log (colorText c_yellow ''Select an environment:''), Log (colorText c_green ''[1] dev''),
      Log (colorText c_green ''[2] qa''), Log (colorText c_green ''[3] stg'')]"

text \<open>Lines 149 to 177.\<close>

definition choose_environment_v1 :: "services_map \<Rightarrow> string \<Rightarrow> string list \<Rightarrow> event list" where
  "choose_environment_v1 servicesMap selectedService answers =
     environments_v1 @
     question (colorText c_yellow ''Enter your choice (1, 2, or 3): '') answers
       (\<lambda>envChoice answers.
          case environment_v1 envChoice of
            None \<Rightarrow> [Log (colorText c_red invalid_environment_v1), Close]
          | Some environment \<Rightarrow>
              (case map_of servicesMap selectedService of
                 None \<Rightarrow> [Uncaught TypeError]
               | Some obj \<Rightarrow>
                   (case map_of obj environment of
                      None \<Rightarrow> [Log (colorText c_red (missing_environment environment selectedService)),
                                Close]
                    | Some serviceDetails \<Rightarrow>
                        forward_v1 selectedService environment serviceDetails answers)))"

text \<open>Lines 118 to 121.\<close>

definition listing_v1 :: "string list \<Rightarrow> event list" where
  "listing_v1 serviceList =
     Log (colorText c_cyan ''Services found:'') #
     map (\<lambda>(index, service). Log (colorText c_green (''['' @ dec (index + 1) @ ''] '' @ service)))
       (enumerate 0 serviceList)"

text \<open>Lines 115 to 117 and 123 to 243.\<close>

definition choose_service_v1 :: "services_map \<Rightarrow> string list \<Rightarrow> event list" where
  "choose_service_v1 servicesMap answers =
     (let serviceList = sort (map fst servicesMap)
      in listing_v1 serviceList @
         (if length serviceList = 0 then [Log (colorText c_magenta ''No services found.'')]
          else
            question (colorText c_yellow ''Please select a service by typing a number: '') answers
              (\<lambda>answer answers.
                 case parseInt answer of
                   None \<Rightarrow> [Log (colorText c_red invalid_service), Close]
                 | Some n \<Rightarrow>
                     (let selectedIndex = n - 1
                      in if selectedIndex \<ge> 0 \<and> selectedIndex < int (length serviceList)
                         then
                           (let selectedService = serviceList ! nat selectedIndex
                            in Log (colorText c_cyan (''You selected: '' @ selectedService)) #
                               choose_environment_v1 servicesMap selectedService answers)
                         else [Log (colorText c_red invalid_service), Close]))))"

definition script_v1 :: "regexp_engine \<Rightarrow> (string \<Rightarrow> exec_result) \<Rightarrow> string list \<Rightarrow> event list" where
  "script_v1 engine sh answers =
     Exec ''kubectl get pods --all-namespaces'' #
     (let r = sh ''kubectl get pods --all-namespaces''
      in case exec_error r of
           Some message \<Rightarrow> [ErrorLog (colorText c_red (''Error executing kubectl: '' @ message))]
         | None \<Rightarrow>
             if exec_stderr r \<noteq> [] then [ErrorLog (colorText c_red (''stderr: '' @ exec_stderr r))]
             else
               (case getServicesMap engine (exec_stdout r) None of
                  Inl e \<Rightarrow> [Uncaught e]
                | Inr servicesMap \<Rightarrow> choose_service_v1 servicesMap answers))"

section \<open>What a run did\<close>

text \<open>The child processes a run started with \<^verbatim>\<open>spawn\<close>, the commands it ran with
  \<^verbatim>\<open>exec\<close>, the questions it asked and the errors it printed.\<close>

fun spawned :: "event list \<Rightarrow> (string \<times> string list) list" where
  "spawned [] = []"
| "spawned (Spawn file args # es) = (file, args) # spawned es"
| "spawned (e # es) = spawned es"

fun executed :: "event list \<Rightarrow> string list" where
  "executed [] = []"
| "executed (Exec cmd # es) = cmd # executed es"
| "executed (e # es) = executed es"

fun asked :: "event list \<Rightarrow> string list" where
  "asked [] = []"
| "asked (Question q # es) = q # asked es"
| "asked (e # es) = asked es"

section \<open>The stripping step as the specification words it\<close>



section \<open>Notions used in the proofs\<close>

text \<open>
  The rows the loop stores, applied in order; the keys of a map, service by service; and
  a map whose keys are all different, as every map the loop builds is.
\<close>

definition stores :: "(string \<times> string \<times> details) list \<Rightarrow> services_map \<Rightarrow> services_map" where
  "stores es m = fold (\<lambda>(S, E, d). store S E d) es m"

definition shape :: "services_map \<Rightarrow> (string \<times> string list) list" where
  "shape m = map (\<lambda>(S, obj). (S, map fst obj)) m"

definition well_keyed :: "services_map \<Rightarrow> bool" where
  "well_keyed m \<longleftrightarrow> distinct (map fst m) \<and> (\<forall>(S, obj) \<in> set m. distinct (map fst obj))"

section \<open>Facts about the parser\<close>

lemma entry_store:
  "entry (store S E d m) S' E' = (if S' = S \<and> E' = E then Some d else entry m S' E')"
  by (auto simp: entry_def store_def Let_def update_conv' split: option.splits)

lemma rows_loop_origin:
  "rows_loop engine ns i j rows m = Inr m' \<Longrightarrow> entry m' S E = Some d \<Longrightarrow>
   entry m S E = Some d \<or> (\<exists>line \<in> set rows. parse_row engine ns i j line = Inr (Some (S, E, d)))"
proof (induction rows arbitrary: m)
  case Nil
  then show ?case by simp
next
  case (Cons line rows)
  show ?case
  proof (cases "parse_row engine ns i j line")
    case (Inl e)
    with Cons.prems show ?thesis by simp
  next
    case (Inr r)
    show ?thesis
    proof (cases r)
      case None
      with Inr Cons.prems have "rows_loop engine ns i j rows m = Inr m'" by simp
      from Cons.IH [OF this Cons.prems(2)] show ?thesis by auto
    next
      case (Some t)
      obtain S' E' d' where t: "t = (S', E', d')" by (cases t)
      with Some Inr Cons.prems have "rows_loop engine ns i j rows (store S' E' d' m) = Inr m'" by simp
      from Cons.IH [OF this Cons.prems(2)] show ?thesis
        using Inr Some t by (auto simp: entry_store split: if_splits)
    qed
  qed
qed







lemma parse_row_Some:
  assumes "parse_row engine namespace namespaceIndex nameIndex line = Inr (Some (S, E, d))"
  shows "\<exists>nameColumn name.
           at (split_ws line) nameIndex = Some nameColumn
         \<and> (prefix ''dev-'' nameColumn \<or> prefix ''qa-'' nameColumn \<or> prefix ''stg-'' nameColumn)
         \<and> E = (if prefix ''dev-'' nameColumn then ''dev''
                else if prefix ''qa-'' nameColumn then ''qa'' else ''stg'')
         \<and> modifiedName engine (case namespace of Some n \<Rightarrow> Some n
               | None \<Rightarrow> at (split_ws line) namespaceIndex) nameColumn = Inr name
         \<and> 2 < length (split_on CHR ''-'' name)
         \<and> S = join ''-'' (take (length (split_on CHR ''-'' name) - 2) (split_on CHR ''-'' name))
         \<and> details_id d = join ''-'' (drop (length (split_on CHR ''-'' name) - 2) (split_on CHR ''-'' name))
         \<and> details_namespace d = (case namespace of Some n \<Rightarrow> Some n
               | None \<Rightarrow> at (split_ws line) namespaceIndex)"
proof -
  define nsc where "nsc = (case namespace of Some n \<Rightarrow> Some n
               | None \<Rightarrow> at (split_ws line) namespaceIndex)"
  from assms obtain nameColumn where nc: "at (split_ws line) nameIndex = Some nameColumn"
    unfolding parse_row_def Let_def by (cases "at (split_ws line) nameIndex") auto
  from assms nc have pre: "prefix ''dev-'' nameColumn \<or> prefix ''qa-'' nameColumn \<or> prefix ''stg-'' nameColumn"
    unfolding parse_row_def Let_def by (simp split: if_splits)
  from assms nc pre obtain name where nm: "modifiedName engine nsc nameColumn = Inr name"
    unfolding parse_row_def Let_def nsc_def
    by (cases "modifiedName engine (case namespace of Some n \<Rightarrow> Some n
               | None \<Rightarrow> at (split_ws line) namespaceIndex) nameColumn") (simp_all split: if_splits)
  from assms nc pre nm have rest:
    "(if length (split_on CHR ''-'' name) > 2
      then Inr (Some (join ''-'' (take (length (split_on CHR ''-'' name) - 2) (split_on CHR ''-'' name)),
             (if prefix ''dev-'' nameColumn then ''dev''
                else if prefix ''qa-'' nameColumn then ''qa'' else ''stg''),
             \<lparr>details_id = join ''-'' (drop (length (split_on CHR ''-'' name) - 2) (split_on CHR ''-'' name)),
              details_namespace = nsc\<rparr>))
      else Inr None) = (Inr (Some (S, E, d)) :: failure + (string \<times> string \<times> details) option)"
    unfolding parse_row_def Let_def nsc_def by (simp split: if_splits)
  then have len: "2 < length (split_on CHR ''-'' name)"
    by (simp split: if_splits)
  with rest have "S = join ''-'' (take (length (split_on CHR ''-'' name) - 2) (split_on CHR ''-'' name))"
    and "E = (if prefix ''dev-'' nameColumn then ''dev''
                else if prefix ''qa-'' nameColumn then ''qa'' else ''stg'')"
    and "d = \<lparr>details_id = join ''-'' (drop (length (split_on CHR ''-'' name) - 2) (split_on CHR ''-'' name)),
              details_namespace = nsc\<rparr>"
    by simp_all
  with nc pre nm len show ?thesis
    unfolding nsc_def by (intro exI [of _ nameColumn] exI [of _ name]) simp
qed


lemma checkout_parse:
  assumes "at (split_ws line) nameIndex = Some ''dev-team-alpha-checkout-ab12-xy34''"
    and "(case namespace of Some n \<Rightarrow> Some n | None \<Rightarrow> at (split_ws line) namespaceIndex)
           = Some ''team-alpha''"
  shows "parse_row engine namespace namespaceIndex nameIndex line
           = Inr (Some (''checkout'', ''dev'',
               \<lparr>details_id = ''ab12-xy34'', details_namespace = Some ''team-alpha''\<rparr>))"
proof -
  have m: "modifiedName engine (Some ''team-alpha'') ''dev-team-alpha-checkout-ab12-xy34''
             = Inr ''checkout-ab12-xy34''"
    by (simp add: modifiedName_def truthy_def tostr_def strip_env_def strip_namespace_def
        regex_literal_def)
  have s: "split_on CHR ''-'' ''checkout-ab12-xy34'' = [''checkout'', ''ab12'', ''xy34'']"
    by simp
  show ?thesis
    unfolding parse_row_def Let_def using assms by (simp add: m s)
qed

text \<open>
  Claim C1. A pod row whose NAME column is \<^verbatim>\<open>dev-team-alpha-checkout-ab12-xy34\<close> and
  whose namespace resolves to \<^verbatim>\<open>team-alpha\<close> (from the argument or from the NAMESPACE
  column) is stored, whatever the map held before: afterwards the service
  \<^verbatim>\<open>checkout\<close> has a \<^verbatim>\<open>dev\<close> entry with id \<^verbatim>\<open>ab12-xy34\<close> and namespace
  \<^verbatim>\<open>team-alpha\<close>.
\<close>

theorem checkout_row:
  assumes "at (split_ws line) nameIndex = Some ''dev-team-alpha-checkout-ab12-xy34''"
    and "(case namespace of Some n \<Rightarrow> Some n | None \<Rightarrow> at (split_ws line) namespaceIndex)
           = Some ''team-alpha''"
  shows "\<exists>m'. rows_loop engine namespace namespaceIndex nameIndex [line] servicesMap = Inr m'
           \<and> entry m' ''checkout'' ''dev''
               = Some \<lparr>details_id = ''ab12-xy34'', details_namespace = Some ''team-alpha''\<rparr>"
  using checkout_parse [OF assms] by (simp add: entry_store)

lemmas eval_parser = getServicesMap_def lines_of_def trim_def is_space_def nl_def split_ws.simps
  parse_row_def Let_def at_def modifiedName_def truthy_def tostr_def strip_env_def
  strip_namespace_def regex_literal_def store_def entry_def

theorem checkout_row_witness:
  "getServicesMap (\<lambda>source name. Inl ''unused'') (''NAMESPACE    NAME                                READY'' @ [nl] @
                   ''team-alpha   dev-team-alpha-checkout-ab12-xy34   1/1'' @ [nl]) None
     = Inr [(''checkout'', [(''dev'',
          \<lparr>details_id = ''ab12-xy34'', details_namespace = Some ''team-alpha''\<rparr>)])]
   \<and> (\<exists>m'. rows_loop (\<lambda>source name. Inl ''unused'') None 0 1 [''team-alpha   dev-team-alpha-checkout-ab12-xy34   1/1''] [] = Inr m'
           \<and> entry m' ''checkout'' ''dev''
               = Some \<lparr>details_id = ''ab12-xy34'', details_namespace = Some ''team-alpha''\<rparr>)"
proof -
  have h1: "at (split_ws ''team-alpha   dev-team-alpha-checkout-ab12-xy34   1/1'') 1
              = Some ''dev-team-alpha-checkout-ab12-xy34''"
    by (simp add: eval_parser)
  have h2: "(case None of Some n \<Rightarrow> Some n
             | None \<Rightarrow> at (split_ws ''team-alpha   dev-team-alpha-checkout-ab12-xy34   1/1'') 0)
              = Some ''team-alpha''"
    by (simp add: eval_parser)
  have g: "getServicesMap (\<lambda>source name. Inl ''unused'') (''NAMESPACE    NAME                                READY'' @ [nl] @
                   ''team-alpha   dev-team-alpha-checkout-ab12-xy34   1/1'' @ [nl]) None
     = Inr [(''checkout'', [(''dev'',
          \<lparr>details_id = ''ab12-xy34'', details_namespace = Some ''team-alpha''\<rparr>)])]"
    by (simp add: eval_parser)
  from g checkout_row [OF h1 h2, where servicesMap = "[]"] show ?thesis by simp
qed


lemma getServicesMap_origin:
  assumes "getServicesMap engine podsData namespace = Inr servicesMap"
    and "entry servicesMap S E = Some d"
  shows "\<exists>line \<in> set (tl (lines_of podsData)).
           parse_row engine namespace (indexOf (split_ws (hd (lines_of podsData))) ''NAMESPACE'')
             (indexOf (split_ws (hd (lines_of podsData))) ''NAME'') line = Inr (Some (S, E, d))"
proof (cases "lines_of podsData")
  case Nil
  with assms(1) show ?thesis by (simp add: getServicesMap_def)
next
  case (Cons header rows)
  with assms(1) have "rows_loop engine namespace (indexOf (split_ws header) ''NAMESPACE'')
      (indexOf (split_ws header) ''NAME'') rows [] = Inr servicesMap"
    by (simp add: getServicesMap_def Let_def)
  from rows_loop_origin [OF this assms(2)] Cons show ?thesis
    by (simp add: entry_def)
qed

text \<open>
  Claim C2. An entry of the map the parser returns comes from a row after the header
  whose NAME column starts with \<^verbatim>\<open>dev-\<close>, \<^verbatim>\<open>qa-\<close> or \<^verbatim>\<open>stg-\<close> and whose name,
  after both prefixes are stripped, splits on \<^verbatim>\<open>-\<close> into more than two segments. A row
  whose NAME column has none of the three prefixes, and a row whose stripped name has at
  most two segments, leave the map as it was.
\<close>

theorem row_contributes_only_if:
  "(getServicesMap engine podsData namespace = Inr servicesMap \<and> entry servicesMap S E = Some d \<longrightarrow>
      (\<exists>line \<in> set (tl (lines_of podsData)). \<exists>nameColumn name.
          at (split_ws line) (indexOf (split_ws (hd (lines_of podsData))) ''NAME'') = Some nameColumn
        \<and> (prefix ''dev-'' nameColumn \<or> prefix ''qa-'' nameColumn \<or> prefix ''stg-'' nameColumn)
        \<and> modifiedName engine (case namespace of Some n \<Rightarrow> Some n | None \<Rightarrow>
              at (split_ws line) (indexOf (split_ws (hd (lines_of podsData))) ''NAMESPACE''))
            nameColumn = Inr name
        \<and> 2 < length (split_on CHR ''-'' name)))
   \<and> (at (split_ws line) nameIndex = Some nameColumn
        \<and> \<not> (prefix ''dev-'' nameColumn \<or> prefix ''qa-'' nameColumn \<or> prefix ''stg-'' nameColumn) \<longrightarrow>
      rows_loop engine namespace namespaceIndex nameIndex (line # rest) m
        = rows_loop engine namespace namespaceIndex nameIndex rest m)
   \<and> (at (split_ws line) nameIndex = Some nameColumn
        \<and> modifiedName engine (case namespace of Some n \<Rightarrow> Some n | None \<Rightarrow>
              at (split_ws line) namespaceIndex) nameColumn = Inr name
        \<and> length (split_on CHR ''-'' name) \<le> 2 \<longrightarrow>
      rows_loop engine namespace namespaceIndex nameIndex (line # rest) m
        = rows_loop engine namespace namespaceIndex nameIndex rest m)"
proof (intro conjI impI)
  assume "getServicesMap engine podsData namespace = Inr servicesMap \<and> entry servicesMap S E = Some d"
  then obtain line where l: "line \<in> set (tl (lines_of podsData))"
    and p: "parse_row engine namespace (indexOf (split_ws (hd (lines_of podsData))) ''NAMESPACE'')
             (indexOf (split_ws (hd (lines_of podsData))) ''NAME'') line = Inr (Some (S, E, d))"
    using getServicesMap_origin by blast
  from parse_row_Some [OF p] l
  show "\<exists>line \<in> set (tl (lines_of podsData)). \<exists>nameColumn name.
          at (split_ws line) (indexOf (split_ws (hd (lines_of podsData))) ''NAME'') = Some nameColumn
        \<and> (prefix ''dev-'' nameColumn \<or> prefix ''qa-'' nameColumn \<or> prefix ''stg-'' nameColumn)
        \<and> modifiedName engine (case namespace of Some n \<Rightarrow> Some n | None \<Rightarrow>
              at (split_ws line) (indexOf (split_ws (hd (lines_of podsData))) ''NAMESPACE''))
            nameColumn = Inr name
        \<and> 2 < length (split_on CHR ''-'' name)"
    by blast
next
  assume "at (split_ws line) nameIndex = Some nameColumn
        \<and> \<not> (prefix ''dev-'' nameColumn \<or> prefix ''qa-'' nameColumn \<or> prefix ''stg-'' nameColumn)"
  then have "parse_row engine namespace namespaceIndex nameIndex line = Inr None"
    by (simp add: parse_row_def Let_def)
  then show "rows_loop engine namespace namespaceIndex nameIndex (line # rest) m
        = rows_loop engine namespace namespaceIndex nameIndex rest m"
    by simp
next
  assume a: "at (split_ws line) nameIndex = Some nameColumn
        \<and> modifiedName engine (case namespace of Some n \<Rightarrow> Some n | None \<Rightarrow>
              at (split_ws line) namespaceIndex) nameColumn = Inr name
        \<and> length (split_on CHR ''-'' name) \<le> 2"
  then have "parse_row engine namespace namespaceIndex nameIndex line = Inr None"
    by (simp add: parse_row_def Let_def)
  then show "rows_loop engine namespace namespaceIndex nameIndex (line # rest) m
        = rows_loop engine namespace namespaceIndex nameIndex rest m"
    by simp
qed



theorem row_contributes_only_if_witness:
  "(getServicesMap (\<lambda>source name. Inl ''unused'') (''NAMESPACE NAME'' @ [nl] @ ''team-alpha dev-team-alpha-checkout-ab12-xy34'' @ [nl] @
        ''kube-system coredns-ab12-xy34'') None
      = Inr [(''checkout'', [(''dev'',
          \<lparr>details_id = ''ab12-xy34'', details_namespace = Some ''team-alpha''\<rparr>)])]
    \<and> entry [(''checkout'', [(''dev'',
          \<lparr>details_id = ''ab12-xy34'', details_namespace = Some ''team-alpha''\<rparr>)])]
          ''checkout'' ''dev''
        = Some \<lparr>details_id = ''ab12-xy34'', details_namespace = Some ''team-alpha''\<rparr>)
   \<and> (at (split_ws ''kube-system coredns-ab12-xy34'') 1 = Some ''coredns-ab12-xy34''
      \<and> \<not> (prefix ''dev-'' ''coredns-ab12-xy34'' \<or> prefix ''qa-'' ''coredns-ab12-xy34''
           \<or> prefix ''stg-'' ''coredns-ab12-xy34'')
      \<and> rows_loop (\<lambda>source name. Inl ''unused'') None 0 1 [''kube-system coredns-ab12-xy34''] [] = Inr [])
   \<and> (at (split_ws ''team-alpha dev-team-alpha-ab12-xy34'') 1 = Some ''dev-team-alpha-ab12-xy34''
      \<and> modifiedName (\<lambda>source name. Inl ''unused'') (at (split_ws ''team-alpha dev-team-alpha-ab12-xy34'') 0)
           ''dev-team-alpha-ab12-xy34'' = Inr ''ab12-xy34''
      \<and> length (split_on CHR ''-'' ''ab12-xy34'') \<le> 2
      \<and> rows_loop (\<lambda>source name. Inl ''unused'') None 0 1 [''team-alpha dev-team-alpha-ab12-xy34''] [] = Inr [])"
proof -
  have h1: "getServicesMap (\<lambda>source name. Inl ''unused'') (''NAMESPACE NAME'' @ [nl] @
        ''team-alpha dev-team-alpha-checkout-ab12-xy34'' @ [nl] @
        ''kube-system coredns-ab12-xy34'') None
      = Inr [(''checkout'', [(''dev'',
          \<lparr>details_id = ''ab12-xy34'', details_namespace = Some ''team-alpha''\<rparr>)])]
    \<and> entry [(''checkout'', [(''dev'',
          \<lparr>details_id = ''ab12-xy34'', details_namespace = Some ''team-alpha''\<rparr>)])]
          ''checkout'' ''dev''
        = Some \<lparr>details_id = ''ab12-xy34'', details_namespace = Some ''team-alpha''\<rparr>"
    by (simp add: eval_parser)
  have h2: "at (split_ws ''kube-system coredns-ab12-xy34'') 1 = Some ''coredns-ab12-xy34''
      \<and> \<not> (prefix ''dev-'' ''coredns-ab12-xy34'' \<or> prefix ''qa-'' ''coredns-ab12-xy34''
           \<or> prefix ''stg-'' ''coredns-ab12-xy34'')"
    by (simp add: eval_parser)
  have h3: "at (split_ws ''team-alpha dev-team-alpha-ab12-xy34'') 1 = Some ''dev-team-alpha-ab12-xy34''
      \<and> modifiedName (\<lambda>source name. Inl ''unused'') (case None of Some n \<Rightarrow> Some n | None \<Rightarrow>
             at (split_ws ''team-alpha dev-team-alpha-ab12-xy34'') 0)
           ''dev-team-alpha-ab12-xy34'' = Inr ''ab12-xy34''
      \<and> length (split_on CHR ''-'' ''ab12-xy34'') \<le> 2"
    by (simp add: eval_parser)
  note t2 = row_contributes_only_if [where line = "''kube-system coredns-ab12-xy34''"
      and nameIndex = 1 and nameColumn = "''coredns-ab12-xy34''" and namespace = None
      and namespaceIndex = 0 and rest = "[]" and m = "[]", THEN conjunct2, THEN conjunct1,
      THEN mp, OF h2]
  note t3 = row_contributes_only_if [where line = "''team-alpha dev-team-alpha-ab12-xy34''"
      and nameIndex = 1 and nameColumn = "''dev-team-alpha-ab12-xy34''" and namespace = None
      and namespaceIndex = 0 and rest = "[]" and m = "[]" and name = "''ab12-xy34''",
      THEN conjunct2, THEN conjunct2, THEN mp, OF h3]
  from h1 h2 h3 t2 t3 show ?thesis by simp
qed




lemma parse_row_namespace_index:
  "parse_row engine (Some NS) i nameIndex line = parse_row engine (Some NS) i' nameIndex line"
  by (simp add: parse_row_def)

lemma rows_loop_namespace_index:
  "rows_loop engine (Some NS) i nameIndex rows m = rows_loop engine (Some NS) i' nameIndex rows m"
proof (induction rows arbitrary: m)
  case Nil
  show ?case by simp
next
  case (Cons line rows)
  have "parse_row engine (Some NS) i nameIndex line = parse_row engine (Some NS) i' nameIndex line"
    by (rule parse_row_namespace_index)
  with Cons show ?case
    by (simp split: sum.splits option.splits)
qed

text \<open>
  Claim C10. With a namespace argument \<open>NS\<close> the loop never looks at the NAMESPACE
  column: its result is the same whatever index that column has, every entry gets the
  namespace \<open>NS\<close>, and \<open>NS\<close> is what the stripping step uses. Without the argument
  the namespace of an entry is the NAMESPACE column of the row it comes from, and that
  text is what the stripping step uses. \<^verbatim>\<open>main\<close> hands \<^verbatim>\<open>getServicesMap\<close> the value
  of \<^verbatim>\<open>--namespace\<close>, which \<^verbatim>\<open>getArgValue\<close> finds when it is not empty.
\<close>

theorem namespace_argument:
  "rows_loop engine (Some NS) i nameIndex rows m = rows_loop engine (Some NS) i' nameIndex rows m
   \<and> (getServicesMap engine podsData (Some NS) = Inr servicesMap \<and> entry servicesMap S E = Some d \<longrightarrow>
        details_namespace d = Some NS
        \<and> (\<exists>line \<in> set (tl (lines_of podsData)). \<exists>nameColumn name.
              at (split_ws line) (indexOf (split_ws (hd (lines_of podsData))) ''NAME'') = Some nameColumn
            \<and> modifiedName engine (Some NS) nameColumn = Inr name
            \<and> S = join ''-'' (take (length (split_on CHR ''-'' name) - 2) (split_on CHR ''-'' name))))
   \<and> (getServicesMap engine podsData None = Inr servicesMap \<and> entry servicesMap S E = Some d \<longrightarrow>
        (\<exists>line \<in> set (tl (lines_of podsData)). \<exists>nameColumn name.
              details_namespace d
                = at (split_ws line) (indexOf (split_ws (hd (lines_of podsData))) ''NAMESPACE'')
            \<and> at (split_ws line) (indexOf (split_ws (hd (lines_of podsData))) ''NAME'') = Some nameColumn
            \<and> modifiedName engine (at (split_ws line) (indexOf (split_ws (hd (lines_of podsData))) ''NAMESPACE''))
                 nameColumn = Inr name
            \<and> S = join ''-'' (take (length (split_on CHR ''-'' name) - 2) (split_on CHR ''-'' name))))
   \<and> (NS \<noteq> [] \<longrightarrow> getArgValue ''--namespace'' [''--namespace'', NS] = Some NS)"
proof (intro conjI impI)
  show "rows_loop engine (Some NS) i nameIndex rows m = rows_loop engine (Some NS) i' nameIndex rows m"
    by (rule rows_loop_namespace_index)
next
  assume h: "getServicesMap engine podsData (Some NS) = Inr servicesMap \<and> entry servicesMap S E = Some d"
  then obtain line where l: "line \<in> set (tl (lines_of podsData))"
    and p: "parse_row engine (Some NS) (indexOf (split_ws (hd (lines_of podsData))) ''NAMESPACE'')
             (indexOf (split_ws (hd (lines_of podsData))) ''NAME'') line = Inr (Some (S, E, d))"
    using getServicesMap_origin by blast
  from parse_row_Some [OF p] show "details_namespace d = Some NS"
    by auto
  from parse_row_Some [OF p] l
  show "\<exists>line \<in> set (tl (lines_of podsData)). \<exists>nameColumn name.
              at (split_ws line) (indexOf (split_ws (hd (lines_of podsData))) ''NAME'') = Some nameColumn
            \<and> modifiedName engine (Some NS) nameColumn = Inr name
            \<and> S = join ''-'' (take (length (split_on CHR ''-'' name) - 2) (split_on CHR ''-'' name))"
    by (intro bexI [of _ line]) auto
next
  assume h: "getServicesMap engine podsData None = Inr servicesMap \<and> entry servicesMap S E = Some d"
  then obtain line where l: "line \<in> set (tl (lines_of podsData))"
    and p: "parse_row engine None (indexOf (split_ws (hd (lines_of podsData))) ''NAMESPACE'')
             (indexOf (split_ws (hd (lines_of podsData))) ''NAME'') line = Inr (Some (S, E, d))"
    using getServicesMap_origin by blast
  from parse_row_Some [OF p] l
  show "\<exists>line \<in> set (tl (lines_of podsData)). \<exists>nameColumn name.
              details_namespace d
                = at (split_ws line) (indexOf (split_ws (hd (lines_of podsData))) ''NAMESPACE'')
            \<and> at (split_ws line) (indexOf (split_ws (hd (lines_of podsData))) ''NAME'') = Some nameColumn
            \<and> modifiedName engine (at (split_ws line) (indexOf (split_ws (hd (lines_of podsData))) ''NAMESPACE''))
                 nameColumn = Inr name
            \<and> S = join ''-'' (take (length (split_on CHR ''-'' name) - 2) (split_on CHR ''-'' name))"
    by (intro bexI [of _ line]) auto
next
  assume "NS \<noteq> []"
  then show "getArgValue ''--namespace'' [''--namespace'', NS] = Some NS"
    by simp
qed

theorem namespace_argument_witness:
  "getServicesMap (\<lambda>source name. Inl ''unused'') (''NAMESPACE NAME'' @ [nl] @ ''other dev-team-alpha-checkout-ab12-xy34'')
      (Some ''team-alpha'')
     = Inr [(''checkout'', [(''dev'',
          \<lparr>details_id = ''ab12-xy34'', details_namespace = Some ''team-alpha''\<rparr>)])]
   \<and> getServicesMap (\<lambda>source name. Inl ''unused'') (''NAMESPACE NAME'' @ [nl] @ ''other dev-team-alpha-checkout-ab12-xy34'') None
     = Inr [(''team-alpha-checkout'', [(''dev'',
          \<lparr>details_id = ''ab12-xy34'', details_namespace = Some ''other''\<rparr>)])]
   \<and> details_namespace \<lparr>details_id = ''ab12-xy34'', details_namespace = Some ''team-alpha''\<rparr>
       = Some ''team-alpha''
   \<and> (\<exists>line \<in> set (tl (lines_of (''NAMESPACE NAME'' @ [nl] @
           ''other dev-team-alpha-checkout-ab12-xy34''))).
         \<exists>nameColumn name.
           Some ''other'' = at (split_ws line) 0
         \<and> at (split_ws line) 1 = Some nameColumn
         \<and> modifiedName (\<lambda>source name. Inl ''unused'') (at (split_ws line) 0) nameColumn = Inr name
         \<and> ''team-alpha-checkout''
             = join ''-'' (take (length (split_on CHR ''-'' name) - 2) (split_on CHR ''-'' name)))
   \<and> getArgValue ''--namespace'' [''--namespace'', ''team-alpha''] = Some ''team-alpha''"
proof -
  let ?pods = "''NAMESPACE NAME'' @ [nl] @ ''other dev-team-alpha-checkout-ab12-xy34''"
  let ?d1 = "\<lparr>details_id = ''ab12-xy34'', details_namespace = Some ''team-alpha''\<rparr>"
  let ?d2 = "\<lparr>details_id = ''ab12-xy34'', details_namespace = Some ''other''\<rparr>"
  have g1: "getServicesMap (\<lambda>source name. Inl ''unused'') ?pods (Some ''team-alpha'') = Inr [(''checkout'', [(''dev'', ?d1)])]"
    and g2: "getServicesMap (\<lambda>source name. Inl ''unused'') ?pods None = Inr [(''team-alpha-checkout'', [(''dev'', ?d2)])]"
    by (simp_all add: eval_parser)
  have h1: "getServicesMap (\<lambda>source name. Inl ''unused'') ?pods (Some ''team-alpha'') = Inr [(''checkout'', [(''dev'', ?d1)])]
      \<and> entry [(''checkout'', [(''dev'', ?d1)])] ''checkout'' ''dev'' = Some ?d1"
    using g1 by (simp add: entry_def)
  have h2: "getServicesMap (\<lambda>source name. Inl ''unused'') ?pods None = Inr [(''team-alpha-checkout'', [(''dev'', ?d2)])]
      \<and> entry [(''team-alpha-checkout'', [(''dev'', ?d2)])] ''team-alpha-checkout'' ''dev'' = Some ?d2"
    using g2 by (simp add: entry_def)
  have h3: "''team-alpha'' \<noteq> []" by simp
  have ix: "indexOf (split_ws (hd (lines_of ?pods))) ''NAMESPACE'' = 0"
    "indexOf (split_ws (hd (lines_of ?pods))) ''NAME'' = 1"
    by (simp_all add: eval_parser)
  note t1 = namespace_argument [THEN conjunct2, THEN conjunct1, THEN mp, OF h1, THEN conjunct1]
  note t2 = namespace_argument [THEN conjunct2, THEN conjunct2, THEN conjunct1, THEN mp, OF h2,
      unfolded ix]
  note t3 = namespace_argument [THEN conjunct2, THEN conjunct2, THEN conjunct2, THEN mp, OF h3]
  from t2 have "\<exists>line \<in> set (tl (lines_of ?pods)).
         \<exists>nameColumn name.
           Some ''other'' = at (split_ws line) 0
         \<and> at (split_ws line) 1 = Some nameColumn
         \<and> modifiedName (\<lambda>source name. Inl ''unused'') (at (split_ws line) 0) nameColumn = Inr name
         \<and> ''team-alpha-checkout''
             = join ''-'' (take (length (split_on CHR ''-'' name) - 2) (split_on CHR ''-'' name))"
    by simp
  with g1 g2 t1 t3 show ?thesis by simp
qed


section \<open>Running the loop again\<close>

lemma stores_Nil [simp]: "stores [] m = m"
  by (simp add: stores_def)

lemma stores_Cons [simp]: "stores ((S, E, d) # es) m = stores es (store S E d m)"
  by (simp add: stores_def)

lemma rows_loop_stores:
  "(\<exists>e. \<forall>m. rows_loop engine ns i j rows m = Inl e) \<or> (\<exists>es. \<forall>m. rows_loop engine ns i j rows m = Inr (stores es m))"
proof (induction rows)
  case Nil
  have "\<forall>m. rows_loop engine ns i j [] m = Inr (stores [] m)" by simp
  then show ?case by blast
next
  case (Cons line rows)
  show ?case
  proof (cases "parse_row engine ns i j line")
    case (Inl e)
    then show ?thesis by simp
  next
    case (Inr r)
    show ?thesis
    proof (cases r)
      case None
      with Inr Cons show ?thesis by simp
    next
      case (Some t)
      obtain S E d where t: "t = (S, E, d)" by (cases t)
      from Cons show ?thesis
      proof
        assume "\<exists>e. \<forall>m. rows_loop engine ns i j rows m = Inl e"
        then obtain e where "\<forall>m. rows_loop engine ns i j rows m = Inl e" ..
        with Inr Some t have "\<forall>m. rows_loop engine ns i j (line # rows) m = Inl e"
          by simp
        then show ?thesis by blast
      next
        assume "\<exists>es. \<forall>m. rows_loop engine ns i j rows m = Inr (stores es m)"
        then obtain es where "\<forall>m. rows_loop engine ns i j rows m = Inr (stores es m)" ..
        with Inr Some t have "\<forall>m. rows_loop engine ns i j (line # rows) m = Inr (stores ((S, E, d) # es) m)"
          by simp
        then show ?thesis by blast
      qed
    qed
  qed
qed

lemma set_update_subset: "set (AList.update k v al) \<subseteq> insert (k, v) (set al)"
  by (induction al) auto

lemma well_keyed_update:
  assumes "well_keyed m" and "distinct (map fst obj)"
  shows "well_keyed (AList.update S obj m)"
  using assms set_update_subset [of S obj m]
  unfolding well_keyed_def by (auto simp: distinct_update)

lemma well_keyed_store:
  assumes "well_keyed m"
  shows "well_keyed (store S E d m)"
proof (cases "map_of m S")
  case None
  then have "store S E d m = AList.update S [(E, d)] m"
    by (simp add: store_def Let_def update_conv')
  with assms show ?thesis
    by (simp add: well_keyed_update)
next
  case (Some obj)
  then have s: "store S E d m = AList.update S (AList.update E d obj) m"
    by (simp add: store_def Let_def)
  from Some have "(S, obj) \<in> set m" by (rule map_of_SomeD)
  with assms have "distinct (map fst obj)"
    unfolding well_keyed_def by auto
  then have "distinct (map fst (AList.update E d obj))"
    by (rule distinct_update)
  with assms s show ?thesis
    by (simp add: well_keyed_update)
qed

lemma well_keyed_stores: "well_keyed m \<Longrightarrow> well_keyed (stores es m)"
proof (induction es arbitrary: m)
  case Nil
  then show ?case by simp
next
  case (Cons e es)
  obtain S E d where "e = (S, E, d)" by (cases e)
  with Cons show ?case by (simp add: well_keyed_store)
qed

lemma entry_stores:
  "entry (stores es m) S E =
     (case map_of (rev (map (\<lambda>(S, E, d). ((S, E), d)) es)) (S, E) of
        Some d \<Rightarrow> Some d | None \<Rightarrow> entry m S E)"
proof (induction es arbitrary: m)
  case Nil
  show ?case by simp
next
  case (Cons e es)
  obtain S' E' d' where e: "e = (S', E', d')" by (cases e)
  show ?case
    unfolding e by (simp add: Cons entry_store map_add_def split: option.splits)
qed

lemma shape_update:
  assumes "map_of m S = Some obj" and "map fst obj' = map fst obj"
  shows "shape (AList.update S obj' m) = shape m"
  using assms by (induction m) (auto simp: shape_def split: if_splits)

lemma shape_store:
  assumes "entry m S E \<noteq> None"
  shows "shape (store S E d m) = shape m"
proof -
  from assms obtain obj where o: "map_of m S = Some obj" and e: "map_of obj E \<noteq> None"
    by (auto simp: entry_def split: option.splits)
  from e have "E \<in> set (map fst obj)"
    by (simp add: map_of_eq_None_iff)
  then have "map fst (AList.update E d obj) = map fst obj"
    by (simp add: update_keys)
  with o have "shape (AList.update S (AList.update E d obj) m) = shape m"
    by (rule shape_update)
  with o show ?thesis by (simp add: store_def Let_def)
qed

lemma shape_stores:
  "\<forall>(S, E, d) \<in> set es. entry m S E \<noteq> None \<Longrightarrow> shape (stores es m) = shape m"
proof (induction es arbitrary: m)
  case Nil
  show ?case by simp
next
  case (Cons e es)
  obtain S E d where e: "e = (S, E, d)" by (cases e)
  from Cons.prems e have p: "entry m S E \<noteq> None" by simp
  from Cons.prems have "\<forall>(S', E', d') \<in> set es. entry (store S E d m) S' E' \<noteq> None"
    by (auto simp: entry_store)
  then have "shape (stores es (store S E d m)) = shape (store S E d m)"
    by (rule Cons.IH)
  with p e show ?case by (simp add: shape_store)
qed

lemma alist_ext:
  "distinct (map fst al) \<Longrightarrow> map fst al = map fst al' \<Longrightarrow> map_of al = map_of al' \<Longrightarrow> al = al'"
proof (induction al arbitrary: al')
  case Nil
  then show ?case by simp
next
  case (Cons p al)
  obtain k v where p: "p = (k, v)" by (cases p)
  from Cons.prems(2) p obtain v' xs where al': "al' = (k, v') # xs" and keys: "map fst al = map fst xs"
    by (cases al') auto
  from Cons.prems(3) p al' have eq: "map_of ((k, v) # al) x = map_of ((k, v') # xs) x" for x
    by (simp only:)
  from eq [of k] have v: "v = v'" by simp
  from Cons.prems(1) p have nk: "k \<notin> set (map fst al)" and d: "distinct (map fst al)" by simp_all
  have "map_of al = map_of xs"
  proof
    fix x
    show "map_of al x = map_of xs x"
    proof (cases "x = k")
      case True
      with nk keys show ?thesis
        by (metis map_of_eq_None_iff set_map)
    next
      case False
      with eq [of x] show ?thesis by simp
    qed
  qed
  with d keys have "al = xs" by (rule Cons.IH)
  with p al' v show ?case by simp
qed

lemma services_ext:
  "well_keyed m \<Longrightarrow> well_keyed m' \<Longrightarrow> shape m = shape m' \<Longrightarrow>
   (\<And>S E. entry m S E = entry m' S E) \<Longrightarrow> m = m'"
proof (induction m arbitrary: m')
  case Nil
  then show ?case by (simp add: shape_def)
next
  case (Cons p m)
  obtain S obj where p: "p = (S, obj)" by (cases p)
  from Cons.prems(3) p obtain obj' xs where m': "m' = (S, obj') # xs"
    and keys: "map fst obj = map fst obj'" and sh: "shape m = shape xs"
    by (cases m') (auto simp: shape_def)
  from Cons.prems(1) p have wk: "well_keyed m" and dobj: "distinct (map fst obj)"
    and nS: "S \<notin> set (map fst m)"
    by (simp_all add: well_keyed_def)
  from Cons.prems(2) m' have wk': "well_keyed xs" and nS': "S \<notin> set (map fst xs)"
    by (simp_all add: well_keyed_def)
  have "map_of obj = map_of obj'"
  proof
    fix E
    from Cons.prems(4) [of S E] p m' show "map_of obj E = map_of obj' E"
      by (simp add: entry_def)
  qed
  with dobj keys have o: "obj = obj'" by (rule alist_ext)
  have "entry m S0 E = entry xs S0 E" for S0 E
  proof (cases "S0 = S")
    case True
    from nS nS' have "map_of m S = None" "map_of xs S = None"
      by (simp_all add: map_of_eq_None_iff)
    with True show ?thesis by (simp add: entry_def)
  next
    case False
    with Cons.prems(4) [of S0 E] p m' show ?thesis by (simp add: entry_def)
  qed
  with wk wk' sh have "m = xs" by (rule Cons.IH)
  with p m' o show ?case by simp
qed

lemma stores_twice:
  assumes "well_keyed m"
  shows "stores es (stores es m) = stores es m"
proof (rule services_ext)
  show "well_keyed (stores es (stores es m))" "well_keyed (stores es m)"
    using assms by (simp_all add: well_keyed_stores)
next
  have "entry (stores es m) S E \<noteq> None" if "(S, E, d) \<in> set es" for S E d
  proof -
    from that have "(S, E) \<in> fst ` set (rev (map (\<lambda>(S, E, d). ((S, E), d)) es))"
      by force
    then have "map_of (rev (map (\<lambda>(S, E, d). ((S, E), d)) es)) (S, E) \<noteq> None"
      by (simp only: map_of_eq_None_iff not_not)
    then show ?thesis
      by (auto simp: entry_stores split: option.splits)
  qed
  then have "\<forall>(S, E, d) \<in> set es. entry (stores es m) S E \<noteq> None"
    by auto
  then show "shape (stores es (stores es m)) = shape (stores es m)"
    by (rule shape_stores)
next
  fix S E
  show "entry (stores es (stores es m)) S E = entry (stores es m) S E"
    by (simp add: entry_stores split: option.splits)
qed

lemma rows_loop_again:
  assumes "rows_loop engine ns i j rows [] = Inr m"
  shows "rows_loop engine ns i j rows m = Inr m"
proof -
  from rows_loop_stores [of engine ns i j rows] assms
  obtain es where es: "\<forall>m. rows_loop engine ns i j rows m = Inr (stores es m)"
    by auto
  with assms have m: "m = stores es []" by simp
  have "well_keyed []" by (simp add: well_keyed_def)
  then have "stores es (stores es []) = stores es []" by (rule stores_twice)
  with es m show ?thesis by simp
qed


text \<open>
  Claim C9. The parser reads its two arguments only and writes only the map it creates:
  two runs on the same text with the same namespace argument give equal results. The
  loop is also idempotent on its own result: run again over the same rows, on the map the
  first run built, it leaves that map as it is.
\<close>

theorem parse_twice_equal:
  "(getServicesMap engine podsData namespace = r1 \<and> getServicesMap engine podsData namespace = r2 \<longrightarrow> r1 = r2)
   \<and> (getServicesMap engine podsData namespace = Inr servicesMap \<longrightarrow>
        rows_loop engine namespace (indexOf (split_ws (hd (lines_of podsData))) ''NAMESPACE'')
          (indexOf (split_ws (hd (lines_of podsData))) ''NAME'') (tl (lines_of podsData)) servicesMap
          = Inr servicesMap)"
proof (intro conjI impI)
  assume "getServicesMap engine podsData namespace = r1 \<and> getServicesMap engine podsData namespace = r2"
  then have "getServicesMap engine podsData namespace = r1" and "getServicesMap engine podsData namespace = r2"
    by blast+
  then show "r1 = r2" by (rule trans [OF sym])
next
  assume g: "getServicesMap engine podsData namespace = Inr servicesMap"
  show "rows_loop engine namespace (indexOf (split_ws (hd (lines_of podsData))) ''NAMESPACE'')
          (indexOf (split_ws (hd (lines_of podsData))) ''NAME'') (tl (lines_of podsData)) servicesMap
          = Inr servicesMap"
  proof (cases "lines_of podsData")
    case Nil
    with g show ?thesis by (simp add: getServicesMap_def)
  next
    case (Cons header rows)
    with g have "rows_loop engine namespace (indexOf (split_ws header) ''NAMESPACE'')
        (indexOf (split_ws header) ''NAME'') rows [] = Inr servicesMap"
      by (simp add: getServicesMap_def Let_def)
    then have "rows_loop engine namespace (indexOf (split_ws header) ''NAMESPACE'')
        (indexOf (split_ws header) ''NAME'') rows servicesMap = Inr servicesMap"
      by (rule rows_loop_again)
    with Cons show ?thesis by simp
  qed
qed

theorem parse_twice_equal_witness:
  "getServicesMap (\<lambda>source name. Inl ''unused'') (''NAMESPACE NAME'' @ [nl] @ ''team-alpha dev-team-alpha-checkout-ab12-xy34'' @ [nl] @
       ''team-alpha qa-team-alpha-api-gw-ef90-uv12'' @ [nl] @
       ''team-alpha dev-team-alpha-checkout-cd56-zz78'') None
     = Inr [(''checkout'', [(''dev'',
              \<lparr>details_id = ''cd56-zz78'', details_namespace = Some ''team-alpha''\<rparr>)]),
            (''api-gw'', [(''qa'',
              \<lparr>details_id = ''ef90-uv12'', details_namespace = Some ''team-alpha''\<rparr>)])]
   \<and> rows_loop (\<lambda>source name. Inl ''unused'') None 0 1
        [''team-alpha dev-team-alpha-checkout-ab12-xy34'', ''team-alpha qa-team-alpha-api-gw-ef90-uv12'',
         ''team-alpha dev-team-alpha-checkout-cd56-zz78'']
        [(''checkout'', [(''dev'',
              \<lparr>details_id = ''cd56-zz78'', details_namespace = Some ''team-alpha''\<rparr>)]),
         (''api-gw'', [(''qa'',
              \<lparr>details_id = ''ef90-uv12'', details_namespace = Some ''team-alpha''\<rparr>)])]
     = Inr [(''checkout'', [(''dev'',
              \<lparr>details_id = ''cd56-zz78'', details_namespace = Some ''team-alpha''\<rparr>)]),
            (''api-gw'', [(''qa'',
              \<lparr>details_id = ''ef90-uv12'', details_namespace = Some ''team-alpha''\<rparr>)])]"
proof -
  let ?pods = "''NAMESPACE NAME'' @ [nl] @ ''team-alpha dev-team-alpha-checkout-ab12-xy34'' @ [nl] @
       ''team-alpha qa-team-alpha-api-gw-ef90-uv12'' @ [nl] @
       ''team-alpha dev-team-alpha-checkout-cd56-zz78''"
  let ?m = "[(''checkout'', [(''dev'',
              \<lparr>details_id = ''cd56-zz78'', details_namespace = Some ''team-alpha''\<rparr>)]),
            (''api-gw'', [(''qa'',
              \<lparr>details_id = ''ef90-uv12'', details_namespace = Some ''team-alpha''\<rparr>)])]"
  have g: "getServicesMap (\<lambda>source name. Inl ''unused'') ?pods None = Inr ?m"
    by (simp add: eval_parser)
  have l: "lines_of ?pods = [''NAMESPACE NAME'', ''team-alpha dev-team-alpha-checkout-ab12-xy34'',
       ''team-alpha qa-team-alpha-api-gw-ef90-uv12'', ''team-alpha dev-team-alpha-checkout-cd56-zz78'']"
    by (simp add: lines_of_def trim_def is_space_def nl_def)
  have ix: "indexOf (split_ws ''NAMESPACE NAME'') ''NAMESPACE'' = 0"
    "indexOf (split_ws ''NAMESPACE NAME'') ''NAME'' = 1"
    by (simp_all add: split_ws.simps is_space_def)
  note t = parse_twice_equal [THEN conjunct2, THEN mp, OF g, unfolded l list.sel ix]
  from g t show ?thesis by (rule conjI)
qed

section \<open>Facts about a run\<close>

lemma spawned_append [simp]: "spawned (xs @ ys) = spawned xs @ spawned ys"
  by (induction xs rule: spawned.induct) auto

lemma executed_append [simp]: "executed (xs @ ys) = executed xs @ executed ys"
  by (induction xs rule: executed.induct) auto

lemma asked_append [simp]: "asked (xs @ ys) = asked xs @ asked ys"
  by (induction xs rule: asked.induct) auto

lemma spawned_logs [simp]: "spawned (map (\<lambda>x. Log (f x)) xs) = []"
  by (induction xs) auto

lemma executed_logs [simp]: "executed (map (\<lambda>x. Log (f x)) xs) = []"
  by (induction xs) auto

lemma asked_logs [simp]: "asked (map (\<lambda>x. Log (f x)) xs) = []"
  by (induction xs) auto

lemma listing_quiet [simp]:
  "spawned (listing xs) = []" "executed (listing xs) = []" "asked (listing xs) = []"
  by (simp_all add: listing_def print_def case_prod_unfold)

lemma listing_v1_quiet [simp]:
  "spawned (listing_v1 xs) = []" "executed (listing_v1 xs) = []" "asked (listing_v1 xs) = []"
  by (simp_all add: listing_v1_def case_prod_unfold)

lemma environments_quiet [simp]:
  "spawned environments = []" "executed environments = []" "asked environments = []"
  by (simp_all add: environments_def print_def)

lemma prompt_Cons: "prompt q (a # rest) k = Question q # k (trim a) rest"
  by (simp add: prompt_def)


lemma sort_keys_Nil [simp]: "sort (map fst (m :: services_map)) = [] \<longleftrightarrow> m = []"
  by (metis length_sort length_0_conv map_is_Nil_conv)

lemma main_parsed:
  assumes "execPromise (sh (getPodsCommand (getArgValue ''--namespace'' args))) = Inr podsData"
    and "getServicesMap engine podsData (getArgValue ''--namespace'' args) = Inr servicesMap"
  shows "main engine args sh answers pf_data =
           [print c_green (nl # ''> '' @ getPodsCommand (getArgValue ''--namespace'' args)),
            SpinnerStart ''Loading services'',
            Exec (getPodsCommand (getArgValue ''--namespace'' args)), SpinnerStop] @
           choose_service (getArgValue ''--namespace'' args) servicesMap sh answers pf_data"
  using assms by (simp add: main_def Let_def)

lemma choose_service_invalid:
  assumes "servicesMap \<noteq> []"
    and "case parseInt (trim a) of None \<Rightarrow> True | Some n \<Rightarrow> n < 1 \<or> int (length servicesMap) < n"
  shows "choose_service namespace servicesMap sh (a # rest) pf_data =
           listing (sort (map fst servicesMap)) @
           [Question (colorText c_yellow ''Select a service by typing a number: ''),
            ErrorLog invalid_service, Close]"
  using assms
  by (auto simp: choose_service_def Let_def prompt_Cons split: option.splits)

lemma choose_service_valid:
  assumes "parseInt (trim a) = Some n" and "1 \<le> n" and "n \<le> int (length servicesMap)"
  shows "choose_service namespace servicesMap sh (a # rest) pf_data =
           listing (sort (map fst servicesMap)) @
           [Question (colorText c_yellow ''Select a service by typing a number: ''),
            print c_cyan (''You selected: '' @ sort (map fst servicesMap) ! nat (n - 1))] @
           choose_environment namespace servicesMap (sort (map fst servicesMap) ! nat (n - 1)) sh
             rest pf_data"
proof -
  from assms have "servicesMap \<noteq> []" by auto
  with assms show ?thesis
    by (simp add: choose_service_def Let_def prompt_Cons)
qed

lemma choose_environment_missing:
  assumes "environment_of (trim b) = Some E" and "map_of servicesMap S = Some obj"
    and "map_of obj E = None"
  shows "choose_environment namespace servicesMap S sh (b # rest) pf_data =
           environments @
           [Question (colorText c_yellow ''Select an environment by typing a number (default: 1): ''),
            ErrorLog (missing_environment E S), Close]"
  using assms by (simp add: choose_environment_def prompt_Cons)

lemma choose_environment_found:
  assumes "environment_of (trim b) = Some E" and "entry servicesMap S E = Some d"
  shows "choose_environment namespace servicesMap S sh (b # rest) pf_data =
           environments @
           Question (colorText c_yellow ''Select an environment by typing a number (default: 1): '') #
           forward namespace S E d sh rest pf_data"
  using assms
  by (auto simp: choose_environment_def prompt_Cons entry_def split: option.splits)

lemma selected_in_map:
  assumes "1 \<le> n" and "n \<le> int (length servicesMap)"
  shows "\<exists>obj. map_of servicesMap (sort (map fst servicesMap) ! nat (n - 1)) = Some obj"
proof -
  from assms have "nat (n - 1) < length (sort (map fst servicesMap))" by simp
  then have "sort (map fst servicesMap) ! nat (n - 1) \<in> set (sort (map fst servicesMap))"
    by (rule nth_mem)
  then have "sort (map fst servicesMap) ! nat (n - 1) \<in> fst ` set servicesMap" by simp
  then show ?thesis
    by (metis map_of_eq_None_iff not_Some_eq)
qed

lemmas eval_answers = parseInt_def digit_value_def is_digit_def digits_value_def
  environment_of_def environment_v1_def execPromise_def getPodsCommand_def trim_def is_space_def
  truthy_def

text \<open>
  Claim C6, as stated, fails at the answer \<^verbatim>\<open>1abc\<close>, which is not a number:
  \<^verbatim>\<open>parseInt\<close> reads the digits it starts with and gives 1, the first service is
  selected, and with environment 1 and the default ports the port-forward is spawned.
\<close>

theorem service_answer_1abc:
  "parseInt (trim ''1abc'') = Some 1
   \<and> spawned (main (\<lambda>source name. Inl ''unused'') []
        (\<lambda>cmd. \<lparr>exec_error = None,
           exec_stdout = (if cmd = ''kubectl get pods --all-namespaces''
             then ''NAMESPACE NAME'' @ [nl] @ ''team-alpha dev-team-alpha-checkout-ab12-xy34''
             else ''8080''),
           exec_stderr = []\<rparr>)
        [''1abc'', ''1'', [], []] None)
      = [(''kubectl'', [''port-forward'', ''--namespace'', ''team-alpha'',
           ''dev-team-alpha-checkout-ab12-xy34'', ''3000:8080''])]"
proof -
  let ?pods = "''NAMESPACE NAME'' @ [nl] @ ''team-alpha dev-team-alpha-checkout-ab12-xy34''"
  let ?sh = "\<lambda>cmd. \<lparr>exec_error = None,
           exec_stdout = (if cmd = ''kubectl get pods --all-namespaces'' then ?pods else ''8080''),
           exec_stderr = []\<rparr>"
  let ?d = "\<lparr>details_id = ''ab12-xy34'', details_namespace = Some ''team-alpha''\<rparr>"
  let ?m = "[(''checkout'', [(''dev'', ?d)])]"
  have e: "execPromise (?sh (getPodsCommand (getArgValue ''--namespace'' []))) = Inr ?pods"
    by (simp add: execPromise_def getPodsCommand_def truthy_def)
  have g: "getServicesMap (\<lambda>source name. Inl ''unused'') ?pods (getArgValue ''--namespace'' [])
             = Inr ?m"
    by (simp add: eval_parser)
  have p1: "parseInt (trim ''1abc'') = Some 1"
    by (simp add: eval_answers)
  have e1: "environment_of (trim ''1'') = Some ''dev''"
    by (simp add: eval_answers)
  have en: "entry ?m ''checkout'' ''dev'' = Some ?d"
    by (simp add: entry_def)
  have f: "spawned (forward None ''checkout'' ''dev'' ?d ?sh [[], []] None)
      = [(''kubectl'', [''port-forward'', ''--namespace'', ''team-alpha'',
           ''dev-team-alpha-checkout-ab12-xy34'', ''3000:8080''])]"
    by (simp add: forward_def Let_def prompt_Cons trim_def print_def getServicePortCommand_def
        tostr_def execPromise_def portForwardCommand_def)
  have "spawned (main (\<lambda>source name. Inl ''unused'') [] ?sh [''1abc'', ''1'', [], []] None)
      = [(''kubectl'', [''port-forward'', ''--namespace'', ''team-alpha'',
           ''dev-team-alpha-checkout-ab12-xy34'', ''3000:8080''])]"
    using f by (simp add: main_parsed [where sh = "?sh" and args = "[]", OF e g]
        choose_service_valid [OF p1] choose_environment_found [OF e1 en] print_def)
  with p1 show ?thesis by simp
qed

text \<open>
  Claim C6, amended. Version 0.0.2, once the services are listed. When
  \<^verbatim>\<open>parseInt\<close> of the answer to the service question gives \<^verbatim>\<open>NaN\<close>, or gives a
  number below 1 or above the number of services listed, the run ends with the error line
  and \<^verbatim>\<open>rl.close()\<close>. When the service is valid and the chosen environment has no
  entry for it, the run ends the same way with the message of the missing environment. In
  both cases nothing is spawned, neither the port-forward nor the logs process, and the
  only command run is the pod listing.
\<close>

theorem invalid_selection_spawns_nothing:
  "(execPromise (sh (getPodsCommand (getArgValue ''--namespace'' args))) = Inr podsData
    \<and> getServicesMap engine podsData (getArgValue ''--namespace'' args) = Inr servicesMap
    \<and> servicesMap \<noteq> []
    \<and> (case parseInt (trim a) of None \<Rightarrow> True | Some n \<Rightarrow> n < 1 \<or> int (length servicesMap) < n)
    \<longrightarrow> spawned (main engine args sh (a # rest) pf_data) = []
      \<and> executed (main engine args sh (a # rest) pf_data) = [getPodsCommand (getArgValue ''--namespace'' args)]
      \<and> suffix [ErrorLog invalid_service, Close] (main engine args sh (a # rest) pf_data))
   \<and> (execPromise (sh (getPodsCommand (getArgValue ''--namespace'' args))) = Inr podsData
    \<and> getServicesMap engine podsData (getArgValue ''--namespace'' args) = Inr servicesMap
    \<and> parseInt (trim a) = Some n \<and> 1 \<le> n \<and> n \<le> int (length servicesMap)
    \<and> S = sort (map fst servicesMap) ! nat (n - 1)
    \<and> environment_of (trim b) = Some E
    \<and> entry servicesMap S E = None
    \<longrightarrow> spawned (main engine args sh (a # b # rest) pf_data) = []
      \<and> executed (main engine args sh (a # b # rest) pf_data) = [getPodsCommand (getArgValue ''--namespace'' args)]
      \<and> suffix [ErrorLog (missing_environment E S), Close] (main engine args sh (a # b # rest) pf_data))"
proof (intro conjI impI)
  assume h: "execPromise (sh (getPodsCommand (getArgValue ''--namespace'' args))) = Inr podsData
    \<and> getServicesMap engine podsData (getArgValue ''--namespace'' args) = Inr servicesMap
    \<and> servicesMap \<noteq> []
    \<and> (case parseInt (trim a) of None \<Rightarrow> True | Some n \<Rightarrow> n < 1 \<or> int (length servicesMap) < n)"
  then have m: "main engine args sh (a # rest) pf_data =
      ([print c_green (nl # ''> '' @ getPodsCommand (getArgValue ''--namespace'' args)),
        SpinnerStart ''Loading services'',
        Exec (getPodsCommand (getArgValue ''--namespace'' args)), SpinnerStop] @
       listing (sort (map fst servicesMap)) @
       [Question (colorText c_yellow ''Select a service by typing a number: '')]) @
      [ErrorLog invalid_service, Close]"
    by (simp add: main_parsed choose_service_invalid)
  show "spawned (main engine args sh (a # rest) pf_data) = []"
    unfolding m by (simp add: print_def)
  show "executed (main engine args sh (a # rest) pf_data) = [getPodsCommand (getArgValue ''--namespace'' args)]"
    unfolding m by (simp add: print_def)
  show "suffix [ErrorLog invalid_service, Close] (main engine args sh (a # rest) pf_data)"
    unfolding m by (rule suffix_appendI) simp
next
  assume h: "execPromise (sh (getPodsCommand (getArgValue ''--namespace'' args))) = Inr podsData
    \<and> getServicesMap engine podsData (getArgValue ''--namespace'' args) = Inr servicesMap
    \<and> parseInt (trim a) = Some n \<and> 1 \<le> n \<and> n \<le> int (length servicesMap)
    \<and> S = sort (map fst servicesMap) ! nat (n - 1)
    \<and> environment_of (trim b) = Some E
    \<and> entry servicesMap S E = None"
  then obtain obj where "map_of servicesMap S = Some obj"
    using selected_in_map [of n servicesMap] by auto
  moreover with h have "map_of obj E = None" by (simp add: entry_def)
  ultimately have m: "main engine args sh (a # b # rest) pf_data =
      ([print c_green (nl # ''> '' @ getPodsCommand (getArgValue ''--namespace'' args)),
        SpinnerStart ''Loading services'',
        Exec (getPodsCommand (getArgValue ''--namespace'' args)), SpinnerStop] @
       listing (sort (map fst servicesMap)) @
       [Question (colorText c_yellow ''Select a service by typing a number: ''),
        print c_cyan (''You selected: '' @ S)] @
       environments @
       [Question (colorText c_yellow ''Select an environment by typing a number (default: 1): '')]) @
      [ErrorLog (missing_environment E S), Close]"
    using h by (simp add: main_parsed choose_service_valid choose_environment_missing)
  show "spawned (main engine args sh (a # b # rest) pf_data) = []"
    unfolding m by (simp add: print_def)
  show "executed (main engine args sh (a # b # rest) pf_data) = [getPodsCommand (getArgValue ''--namespace'' args)]"
    unfolding m by (simp add: print_def)
  show "suffix [ErrorLog (missing_environment E S), Close] (main engine args sh (a # b # rest) pf_data)"
    unfolding m by (rule suffix_appendI) simp
qed


theorem invalid_selection_spawns_nothing_witness:
  "(execPromise ((\<lambda>cmd. \<lparr>exec_error = None,
         exec_stdout = ''NAMESPACE NAME'' @ [nl] @ ''team-alpha dev-team-alpha-checkout-ab12-xy34'',
         exec_stderr = []\<rparr>) (getPodsCommand (getArgValue ''--namespace'' [])))
       = Inr (''NAMESPACE NAME'' @ [nl] @ ''team-alpha dev-team-alpha-checkout-ab12-xy34'')
    \<and> getServicesMap (\<lambda>source name. Inl ''unused'') (''NAMESPACE NAME'' @ [nl] @ ''team-alpha dev-team-alpha-checkout-ab12-xy34'')
         (getArgValue ''--namespace'' [])
       = Inr [(''checkout'', [(''dev'',
           \<lparr>details_id = ''ab12-xy34'', details_namespace = Some ''team-alpha''\<rparr>)])]
    \<and> parseInt (trim ''7'') = Some 7 \<and> parseInt (trim ''one'') = None
    \<and> parseInt (trim ''1'') = Some 1 \<and> environment_of (trim ''2'') = Some ''qa''
    \<and> entry [(''checkout'', [(''dev'',
           \<lparr>details_id = ''ab12-xy34'', details_namespace = Some ''team-alpha''\<rparr>)])]
         ''checkout'' ''qa'' = None)
   \<and> spawned (main (\<lambda>source name. Inl ''unused'') [] (\<lambda>cmd. \<lparr>exec_error = None,
         exec_stdout = ''NAMESPACE NAME'' @ [nl] @ ''team-alpha dev-team-alpha-checkout-ab12-xy34'',
         exec_stderr = []\<rparr>) [''7''] None) = []
   \<and> suffix [ErrorLog invalid_service, Close] (main (\<lambda>source name. Inl ''unused'') [] (\<lambda>cmd. \<lparr>exec_error = None,
         exec_stdout = ''NAMESPACE NAME'' @ [nl] @ ''team-alpha dev-team-alpha-checkout-ab12-xy34'',
         exec_stderr = []\<rparr>) [''one''] None)
   \<and> spawned (main (\<lambda>source name. Inl ''unused'') [] (\<lambda>cmd. \<lparr>exec_error = None,
         exec_stdout = ''NAMESPACE NAME'' @ [nl] @ ''team-alpha dev-team-alpha-checkout-ab12-xy34'',
         exec_stderr = []\<rparr>) [''1'', ''2''] None) = []
   \<and> suffix [ErrorLog (missing_environment ''qa'' ''checkout''), Close]
        (main (\<lambda>source name. Inl ''unused'') [] (\<lambda>cmd. \<lparr>exec_error = None,
         exec_stdout = ''NAMESPACE NAME'' @ [nl] @ ''team-alpha dev-team-alpha-checkout-ab12-xy34'',
         exec_stderr = []\<rparr>) [''1'', ''2''] None)"
  (is "?hyps \<and> ?c1 \<and> ?c2 \<and> ?c3 \<and> ?c4")
proof -
  let ?pods = "''NAMESPACE NAME'' @ [nl] @ ''team-alpha dev-team-alpha-checkout-ab12-xy34''"
  let ?sh = "\<lambda>cmd :: string. \<lparr>exec_error = None, exec_stdout = ?pods, exec_stderr = []\<rparr>"
  let ?m = "[(''checkout'', [(''dev'',
           \<lparr>details_id = ''ab12-xy34'', details_namespace = Some ''team-alpha''\<rparr>)])]"
  have e: "execPromise (?sh (getPodsCommand (getArgValue ''--namespace'' []))) = Inr ?pods"
    by (simp add: execPromise_def)
  have g: "getServicesMap (\<lambda>source name. Inl ''unused'') ?pods (getArgValue ''--namespace'' []) = Inr ?m"
    by (simp add: eval_parser)
  have p7: "parseInt (trim ''7'') = Some 7" and p1: "parseInt (trim ''1'') = Some 1"
    and pone: "parseInt (trim ''one'') = None"
    by (simp_all add: eval_answers)
  have e2: "environment_of (trim ''2'') = Some ''qa''"
    by (simp add: eval_answers)
  have en: "entry ?m ''checkout'' ''qa'' = None"
    by (simp add: entry_def)
  have s: "''checkout'' = sort (map fst ?m) ! nat (1 - 1)"
    by simp
  have h7: "execPromise (?sh (getPodsCommand (getArgValue ''--namespace'' []))) = Inr ?pods
    \<and> getServicesMap (\<lambda>source name. Inl ''unused'') ?pods (getArgValue ''--namespace'' []) = Inr ?m \<and> ?m \<noteq> []
    \<and> (case parseInt (trim ''7'') of None \<Rightarrow> True | Some n \<Rightarrow> n < 1 \<or> int (length ?m) < n)"
    using e g p7 by simp
  have hone: "execPromise (?sh (getPodsCommand (getArgValue ''--namespace'' []))) = Inr ?pods
    \<and> getServicesMap (\<lambda>source name. Inl ''unused'') ?pods (getArgValue ''--namespace'' []) = Inr ?m \<and> ?m \<noteq> []
    \<and> (case parseInt (trim ''one'') of None \<Rightarrow> True | Some n \<Rightarrow> n < 1 \<or> int (length ?m) < n)"
    using e g pone by simp
  have h12: "execPromise (?sh (getPodsCommand (getArgValue ''--namespace'' []))) = Inr ?pods
    \<and> getServicesMap (\<lambda>source name. Inl ''unused'') ?pods (getArgValue ''--namespace'' []) = Inr ?m
    \<and> parseInt (trim ''1'') = Some 1 \<and> (1::int) \<le> 1 \<and> 1 \<le> int (length ?m)
    \<and> ''checkout'' = sort (map fst ?m) ! nat (1 - 1)
    \<and> environment_of (trim ''2'') = Some ''qa''
    \<and> entry ?m ''checkout'' ''qa'' = None"
    using e g p1 e2 en s by simp
  note t7 = invalid_selection_spawns_nothing [THEN conjunct1, THEN mp, OF h7, of "[]" None]
  note tone = invalid_selection_spawns_nothing [THEN conjunct1, THEN mp, OF hone, of "[]" None]
  note t12 = invalid_selection_spawns_nothing [THEN conjunct2, THEN mp, OF h12, of "[]" None]
  have ?hyps using e g p7 pone p1 e2 en by simp
  moreover have ?c1 using t7 by simp
  moreover have ?c2 using tone by simp
  moreover have ?c3 using t12 by simp
  moreover have ?c4 using t12 by simp
  ultimately show ?thesis by simp
qed


text \<open>
  Claim C7. When the listing output (trimmed) is the header row alone, the parser gives
  the empty map. Version 0.0.2 then prints \<^verbatim>\<open>No services found.\<close>, closes the
  input and does nothing more; version 0.0.1 prints its heading and the same line and
  returns. Neither asks a question or spawns a process.
\<close>

theorem header_only:
  "(lines_of podsData = [header] \<longrightarrow> getServicesMap engine podsData namespace = Inr [])
   \<and> (execPromise (sh (getPodsCommand (getArgValue ''--namespace'' args))) = Inr podsData
      \<and> lines_of podsData = [header] \<longrightarrow>
      main engine args sh answers pf_data =
        [print c_green (nl # ''> '' @ getPodsCommand (getArgValue ''--namespace'' args)),
         SpinnerStart ''Loading services'',
         Exec (getPodsCommand (getArgValue ''--namespace'' args)), SpinnerStop,
         print c_magenta ''No services found.'', Close])
   \<and> (exec_error (sh ''kubectl get pods --all-namespaces'') = None
      \<and> exec_stderr (sh ''kubectl get pods --all-namespaces'') = []
      \<and> lines_of (exec_stdout (sh ''kubectl get pods --all-namespaces'')) = [header] \<longrightarrow>
      script_v1 engine sh answers =
        [Exec ''kubectl get pods --all-namespaces'', Log (colorText c_cyan ''Services found:''),
         Log (colorText c_magenta ''No services found.'')])"
proof -
  have g: "getServicesMap engine p ns = Inr []" if "lines_of p = [header]" for p ns
    using that by (simp add: getServicesMap_def Let_def)
  show ?thesis
  proof (intro conjI impI)
    assume "lines_of podsData = [header]"
    then show "getServicesMap engine podsData namespace = Inr []" by (rule g)
  next
    assume "execPromise (sh (getPodsCommand (getArgValue ''--namespace'' args))) = Inr podsData
      \<and> lines_of podsData = [header]"
    then show "main engine args sh answers pf_data =
        [print c_green (nl # ''> '' @ getPodsCommand (getArgValue ''--namespace'' args)),
         SpinnerStart ''Loading services'',
         Exec (getPodsCommand (getArgValue ''--namespace'' args)), SpinnerStop,
         print c_magenta ''No services found.'', Close]"
      by (simp add: main_def Let_def g choose_service_def)
  next
    assume "exec_error (sh ''kubectl get pods --all-namespaces'') = None
      \<and> exec_stderr (sh ''kubectl get pods --all-namespaces'') = []
      \<and> lines_of (exec_stdout (sh ''kubectl get pods --all-namespaces'')) = [header]"
    then show "script_v1 engine sh answers =
        [Exec ''kubectl get pods --all-namespaces'', Log (colorText c_cyan ''Services found:''),
         Log (colorText c_magenta ''No services found.'')]"
      by (simp add: script_v1_def Let_def g choose_service_v1_def listing_v1_def)
  qed
qed

theorem header_only_witness:
  "lines_of (''NAMESPACE   NAME   READY   STATUS   RESTARTS   AGE'' @ [nl])
     = [''NAMESPACE   NAME   READY   STATUS   RESTARTS   AGE'']
   \<and> getServicesMap (\<lambda>source name. Inl ''unused'') (''NAMESPACE   NAME   READY   STATUS   RESTARTS   AGE'' @ [nl]) None = Inr []
   \<and> asked (main (\<lambda>source name. Inl ''unused'') [] (\<lambda>cmd. \<lparr>exec_error = None,
        exec_stdout = ''NAMESPACE   NAME   READY   STATUS   RESTARTS   AGE'' @ [nl],
        exec_stderr = []\<rparr>) [''1'', ''1''] None) = []
   \<and> spawned (main (\<lambda>source name. Inl ''unused'') [] (\<lambda>cmd. \<lparr>exec_error = None,
        exec_stdout = ''NAMESPACE   NAME   READY   STATUS   RESTARTS   AGE'' @ [nl],
        exec_stderr = []\<rparr>) [''1'', ''1''] None) = []
   \<and> script_v1 (\<lambda>source name. Inl ''unused'') (\<lambda>cmd. \<lparr>exec_error = None,
        exec_stdout = ''NAMESPACE   NAME   READY   STATUS   RESTARTS   AGE'' @ [nl],
        exec_stderr = []\<rparr>) [''1'', ''1'']
     = [Exec ''kubectl get pods --all-namespaces'', Log (colorText c_cyan ''Services found:''),
        Log (colorText c_magenta ''No services found.'')]"
proof -
  let ?out = "''NAMESPACE   NAME   READY   STATUS   RESTARTS   AGE'' @ [nl]"
  let ?sh = "\<lambda>cmd :: string. \<lparr>exec_error = None, exec_stdout = ?out, exec_stderr = []\<rparr>"
  have l: "lines_of ?out = [''NAMESPACE   NAME   READY   STATUS   RESTARTS   AGE'']"
    by (simp add: lines_of_def trim_def is_space_def nl_def)
  have h2: "execPromise (?sh (getPodsCommand (getArgValue ''--namespace'' []))) = Inr ?out
      \<and> lines_of ?out = [''NAMESPACE   NAME   READY   STATUS   RESTARTS   AGE'']"
    using l by (simp add: execPromise_def)
  have h3: "exec_error (?sh ''kubectl get pods --all-namespaces'') = None
      \<and> exec_stderr (?sh ''kubectl get pods --all-namespaces'') = []
      \<and> lines_of (exec_stdout (?sh ''kubectl get pods --all-namespaces''))
          = [''NAMESPACE   NAME   READY   STATUS   RESTARTS   AGE'']"
    using l by simp
  note t1 = header_only [where namespace = None, THEN conjunct1, THEN mp, OF l]
  note t2 = header_only [where answers = "[''1'', ''1'']" and pf_data = None,
      THEN conjunct2, THEN conjunct1, THEN mp, OF h2]
  note t3 = header_only [where answers = "[''1'', ''1'']",
      THEN conjunct2, THEN conjunct2, THEN mp, OF h3]
  from l t1 t2 t3 show ?thesis by (simp add: print_def)
qed

text \<open>
  Claim C8. The pod lister fails exactly when \<^verbatim>\<open>exec\<close> reports an error or the
  command wrote to standard error, and otherwise hands the captured standard output on
  unchanged. In version 0.0.2 the failure is the rejection of \<^verbatim>\<open>execPromise\<close>, which
  carries the error (the text of standard error when there is no error object) and ends
  \<^verbatim>\<open>main\<close> in its \<^verbatim>\<open>catch\<close> block; in version 0.0.1 the callback prints the
  error and returns.
\<close>

theorem pod_lister_fails:
  "((\<exists>e. execPromise r = Inl e) \<longleftrightarrow> exec_error r \<noteq> None \<or> exec_stderr r \<noteq> [])
   \<and> (exec_error r = None \<and> exec_stderr r = [] \<longrightarrow> execPromise r = Inr (exec_stdout r))
   \<and> (exec_error r = Some message \<longrightarrow> execPromise r = Inl message)
   \<and> (exec_error r = None \<and> exec_stderr r \<noteq> [] \<longrightarrow> execPromise r = Inl (exec_stderr r))
   \<and> (execPromise (sh (getPodsCommand (getArgValue ''--namespace'' args))) = Inl e \<longrightarrow>
        main engine args sh answers pf_data =
          [print c_green (nl # ''> '' @ getPodsCommand (getArgValue ''--namespace'' args)),
           SpinnerStart ''Loading services'',
           Exec (getPodsCommand (getArgValue ''--namespace'' args)),
           SpinnerStop, ErrorLog e, Close])
   \<and> (exec_error (sh ''kubectl get pods --all-namespaces'') = Some message \<longrightarrow>
        script_v1 engine sh answers =
          [Exec ''kubectl get pods --all-namespaces'',
           ErrorLog (colorText c_red (''Error executing kubectl: '' @ message))])
   \<and> (exec_error (sh ''kubectl get pods --all-namespaces'') = None
        \<and> exec_stderr (sh ''kubectl get pods --all-namespaces'') \<noteq> [] \<longrightarrow>
        script_v1 engine sh answers =
          [Exec ''kubectl get pods --all-namespaces'',
           ErrorLog (colorText c_red
             (''stderr: '' @ exec_stderr (sh ''kubectl get pods --all-namespaces'')))])
   \<and> (exec_error (sh ''kubectl get pods --all-namespaces'') = None
        \<and> exec_stderr (sh ''kubectl get pods --all-namespaces'') = []
        \<and> getServicesMap engine (exec_stdout (sh ''kubectl get pods --all-namespaces'')) None
            = Inr servicesMap \<longrightarrow>
        script_v1 engine sh answers =
          Exec ''kubectl get pods --all-namespaces'' # choose_service_v1 servicesMap answers)"
proof (intro conjI impI)
  show "(\<exists>e. execPromise r = Inl e) \<longleftrightarrow> exec_error r \<noteq> None \<or> exec_stderr r \<noteq> []"
    by (auto simp: execPromise_def split: option.splits)
qed (simp_all add: execPromise_def main_def script_v1_def Let_def catch_block_def)


theorem pod_lister_fails_witness:
  "execPromise \<lparr>exec_error = Some ''Command failed: kubectl get pods --all-namespaces'',
       exec_stdout = [], exec_stderr = ''Unable to connect to the server''\<rparr>
     = Inl ''Command failed: kubectl get pods --all-namespaces''
   \<and> execPromise \<lparr>exec_error = None, exec_stdout = ''NAME'', exec_stderr = ''warning''\<rparr>
     = Inl ''warning''
   \<and> execPromise \<lparr>exec_error = None, exec_stdout = ''NAME'' @ [nl], exec_stderr = []\<rparr>
     = Inr (''NAME'' @ [nl])
   \<and> main (\<lambda>source name. Inl ''unused'') [] (\<lambda>cmd. \<lparr>exec_error = None, exec_stdout = ''NAME'', exec_stderr = ''warning''\<rparr>)
        [''1''] None
     = [print c_green (nl # ''> kubectl get pods --all-namespaces''),
        SpinnerStart ''Loading services'', Exec ''kubectl get pods --all-namespaces'',
        SpinnerStop, ErrorLog ''warning'', Close]
   \<and> script_v1 (\<lambda>source name. Inl ''unused'') (\<lambda>cmd. \<lparr>exec_error = Some ''Command failed'', exec_stdout = [],
          exec_stderr = []\<rparr>) [''1'']
     = [Exec ''kubectl get pods --all-namespaces'',
        ErrorLog (colorText c_red ''Error executing kubectl: Command failed'')]
   \<and> script_v1 (\<lambda>source name. Inl ''unused'') (\<lambda>cmd. \<lparr>exec_error = None, exec_stdout = ''NAME'', exec_stderr = ''warning''\<rparr>)
        [''1'']
     = [Exec ''kubectl get pods --all-namespaces'', ErrorLog (colorText c_red ''stderr: warning'')]
   \<and> script_v1 (\<lambda>source name. Inl ''unused'') (\<lambda>cmd. \<lparr>exec_error = None, exec_stdout = ''NAME'' @ [nl], exec_stderr = []\<rparr>)
        [''1'']
     = Exec ''kubectl get pods --all-namespaces'' # choose_service_v1 [] [''1'']"
proof -
  let ?failed = "\<lparr>exec_error = Some ''Command failed: kubectl get pods --all-namespaces'',
       exec_stdout = [], exec_stderr = ''Unable to connect to the server''\<rparr>"
  let ?warned = "\<lparr>exec_error = None, exec_stdout = ''NAME'', exec_stderr = ''warning''\<rparr>"
  let ?fine = "\<lparr>exec_error = None, exec_stdout = ''NAME'' @ [nl], exec_stderr = []\<rparr>"
  have a: "exec_error ?failed = Some ''Command failed: kubectl get pods --all-namespaces''"
    by simp
  have b: "exec_error ?warned = None \<and> exec_stderr ?warned \<noteq> []"
    by simp
  have c: "exec_error ?fine = None \<and> exec_stderr ?fine = []"
    by simp
  have d: "execPromise ((\<lambda>cmd :: string. ?warned) (getPodsCommand (getArgValue ''--namespace'' [])))
             = Inl ''warning''"
    by (simp add: execPromise_def)
  have e: "exec_error ((\<lambda>cmd :: string. \<lparr>exec_error = Some ''Command failed'', exec_stdout = [],
          exec_stderr = []\<rparr>) ''kubectl get pods --all-namespaces'') = Some ''Command failed''"
    by simp
  have f: "exec_error ((\<lambda>cmd :: string. ?warned) ''kubectl get pods --all-namespaces'') = None
      \<and> exec_stderr ((\<lambda>cmd :: string. ?warned) ''kubectl get pods --all-namespaces'') \<noteq> []"
    by simp
  have g: "exec_error ((\<lambda>cmd :: string. ?fine) ''kubectl get pods --all-namespaces'') = None
      \<and> exec_stderr ((\<lambda>cmd :: string. ?fine) ''kubectl get pods --all-namespaces'') = []
      \<and> getServicesMap (\<lambda>source name. Inl ''unused'') (exec_stdout ((\<lambda>cmd :: string. ?fine) ''kubectl get pods --all-namespaces''))
           None = Inr []"
    by (simp add: eval_parser)
  note t = pod_lister_fails
  note ta = t [THEN conjunct2, THEN conjunct2, THEN conjunct1, THEN mp, OF a]
  note tb = t [THEN conjunct2, THEN conjunct2, THEN conjunct2, THEN conjunct1, THEN mp, OF b]
  note tc = t [THEN conjunct2, THEN conjunct1, THEN mp, OF c]
  note td = t [where answers = "[''1'']" and pf_data = None,
      THEN conjunct2, THEN conjunct2, THEN conjunct2, THEN conjunct2, THEN conjunct1, THEN mp, OF d]
  note te = t [where answers = "[''1'']", THEN conjunct2, THEN conjunct2, THEN conjunct2,
      THEN conjunct2, THEN conjunct2, THEN conjunct1, THEN mp, OF e]
  note tf = t [where answers = "[''1'']", THEN conjunct2, THEN conjunct2, THEN conjunct2,
      THEN conjunct2, THEN conjunct2, THEN conjunct2, THEN conjunct1, THEN mp, OF f]
  note tg = t [where answers = "[''1'']", THEN conjunct2, THEN conjunct2, THEN conjunct2,
      THEN conjunct2, THEN conjunct2, THEN conjunct2, THEN conjunct2, THEN mp, OF g]
  from ta tb tc td te tf tg show ?thesis
    by (simp add: getPodsCommand_def truthy_def)
qed

text \<open>
  Claim C5 at the answers \<^verbatim>\<open>abc\<close> and \<^verbatim>\<open>0\<close>. Version 0.0.2 takes both, like the
  empty answer, for option 1: \<^verbatim>\<open>parseInt(envAnswer) || 1\<close> is 1 for every answer
  that parses to \<^verbatim>\<open>NaN\<close> or to 0. The run below answers \<^verbatim>\<open>abc\<close> at the
  environment question and goes on to spawn the port-forward of the \<^verbatim>\<open>dev\<close> pod.
  The answer \<^verbatim>\<open>4\<close> is refused, and version 0.0.1 refuses \<^verbatim>\<open>abc\<close> and the empty
  answer.
\<close>

theorem environment_answer_abc:
  "environment_of ''abc'' = Some ''dev''
   \<and> environment_of ''0'' = Some ''dev''
   \<and> environment_of [] = Some ''dev''
   \<and> environment_of ''4'' = None
   \<and> environment_v1 ''abc'' = None
   \<and> environment_v1 [] = None
   \<and> spawned (main (\<lambda>source name. Inl ''unused'') []
        (\<lambda>cmd. \<lparr>exec_error = None,
           exec_stdout = (if cmd = ''kubectl get pods --all-namespaces''
             then ''NAMESPACE NAME'' @ [nl] @ ''team-alpha dev-team-alpha-checkout-ab12-xy34''
             else ''8080''),
           exec_stderr = []\<rparr>)
        [''1'', ''abc'', [], []] None)
      = [(''kubectl'', [''port-forward'', ''--namespace'', ''team-alpha'',
           ''dev-team-alpha-checkout-ab12-xy34'', ''3000:8080''])]"
proof -
  let ?pods = "''NAMESPACE NAME'' @ [nl] @ ''team-alpha dev-team-alpha-checkout-ab12-xy34''"
  let ?sh = "\<lambda>cmd. \<lparr>exec_error = None,
           exec_stdout = (if cmd = ''kubectl get pods --all-namespaces'' then ?pods else ''8080''),
           exec_stderr = []\<rparr>"
  let ?d = "\<lparr>details_id = ''ab12-xy34'', details_namespace = Some ''team-alpha''\<rparr>"
  let ?m = "[(''checkout'', [(''dev'', ?d)])]"
  have e: "execPromise (?sh (getPodsCommand (getArgValue ''--namespace'' []))) = Inr ?pods"
    by (simp add: execPromise_def getPodsCommand_def truthy_def)
  have g: "getServicesMap (\<lambda>source name. Inl ''unused'') ?pods (getArgValue ''--namespace'' []) = Inr ?m"
    by (simp add: eval_parser)
  have p1: "parseInt (trim ''1'') = Some 1"
    by (simp add: eval_answers)
  have abc: "environment_of (trim ''abc'') = Some ''dev''"
    by (simp add: eval_answers)
  have en: "entry ?m ''checkout'' ''dev'' = Some ?d"
    by (simp add: entry_def)
  have f: "spawned (forward None ''checkout'' ''dev'' ?d ?sh [[], []] None)
      = [(''kubectl'', [''port-forward'', ''--namespace'', ''team-alpha'',
           ''dev-team-alpha-checkout-ab12-xy34'', ''3000:8080''])]"
    by (simp add: forward_def Let_def prompt_Cons trim_def print_def getServicePortCommand_def
        tostr_def execPromise_def portForwardCommand_def)
  have "spawned (main (\<lambda>source name. Inl ''unused'') [] ?sh [''1'', ''abc'', [], []] None)
      = [(''kubectl'', [''port-forward'', ''--namespace'', ''team-alpha'',
           ''dev-team-alpha-checkout-ab12-xy34'', ''3000:8080''])]"
    using f by (simp add: main_parsed [where sh = "?sh" and args = "[]", OF e g]
        choose_service_valid [OF p1] choose_environment_found [OF abc en] print_def)
  then show ?thesis
    by (simp add: eval_answers)
qed









lemma environments_v1_quiet [simp]: "spawned environments_v1 = []"
  by (simp add: environments_v1_def)






end
